theory Spec2Isabelle
  imports Complex_Main
begin

section \<open>Values of the tables\<close>

text \<open>
  The two scripts \<^verbatim>\<open>analyze_campaigns.py\<close> and \<^verbatim>\<open>analyze_customers.py\<close> read a
  CSV table with pandas, clean it and compute scalar metrics. The model takes the table
  as \<^verbatim>\<open>pd.read_csv\<close> delivers it: a list of rows, in file order.

  A column of whole numbers without missing cells is read as \<^verbatim>\<open>int64\<close>: its cells are
  integers, and its sum wraps around at \<open>2^63\<close>. A column of amounts, or one with
  missing cells, is read as \<^verbatim>\<open>float64\<close>: a cell is a number or missing (\<open>None\<close>,
  pandas' NaN). The arithmetic of doubles is modelled exactly, as reals, without its
  rounding. What is modelled of it is the part the scripts can observe: the missing
  cells, and the result of a division by zero, which numpy does not raise but returns
  as \<open>nan\<close>, \<open>inf\<close> or \<open>-inf\<close>.
\<close>

datatype fval = Fin real | PInf | NInf | NaN

text \<open>numpy's \<^verbatim>\<open>/\<close> on two finite scalars.\<close>

definition true_divide :: "real \<Rightarrow> real \<Rightarrow> fval" where
  "true_divide a b =
     (if b \<noteq> 0 then Fin (a / b)
      else if 0 < a then PInf
      else if a < 0 then NInf
      else NaN)"

text \<open>\<^verbatim>\<open>x * c\<close> for a finite constant \<open>c\<close>.\<close>

fun scale :: "fval \<Rightarrow> real \<Rightarrow> fval" where
  "scale (Fin x) c = Fin (x * c)"
| "scale PInf c = (if 0 < c then PInf else if c < 0 then NInf else NaN)"
| "scale NInf c = (if 0 < c then NInf else if c < 0 then PInf else NaN)"
| "scale NaN c = NaN"

text \<open>
  \<^verbatim>\<open>Series.sum()\<close> of a \<^verbatim>\<open>float64\<close> column: missing cells are skipped, the empty
  sum is 0. Of an \<^verbatim>\<open>int64\<close> column: the sum of the integers, wrapped into
  \<open>-2^63 \<dots> 2^63 - 1\<close>.
\<close>

fun sum_skipna :: "real option list \<Rightarrow> real" where
  "sum_skipna [] = 0"
| "sum_skipna (None # cs) = sum_skipna cs"
| "sum_skipna (Some v # cs) = v + sum_skipna cs"

definition wrap64 :: "int \<Rightarrow> int" where
  "wrap64 n = (n + 9223372036854775808) mod 18446744073709551616 - 9223372036854775808"

definition int64_sum :: "int list \<Rightarrow> int" where
  "int64_sum ns = wrap64 (sum_list ns)"

text \<open>The cells of a column that are not missing, in order.\<close>

fun present :: "'a option list \<Rightarrow> 'a list" where
  "present [] = []"
| "present (None # cs) = present cs"
| "present (Some v # cs) = v # present cs"

text \<open>\<^verbatim>\<open>column > 0\<close>: a comparison with a missing cell is false.\<close>

fun gt_zero :: "real option \<Rightarrow> bool" where
  "gt_zero None = False"
| "gt_zero (Some v) = (0 < v)"

text \<open>
  The exceptions the scripts can end with. \<open>DateParseError\<close> is what
  \<^verbatim>\<open>pd.to_datetime\<close> raises on a text it cannot read as a date.
\<close>

datatype error = ValueError | KeyError | ZeroDivisionError | DateParseError

text \<open>
  The order of the non-NaN values, and \<^verbatim>\<open>Series.idxmax()\<close> / \<^verbatim>\<open>Series.idxmin()\<close>
  on a column with the default index \<open>0, 1, ...\<close>: NaN is skipped, the first position of
  the extreme value is returned. On an empty column pandas raises
  \<^verbatim>\<open>ValueError: attempt to get argmax of an empty sequence\<close>. On a column of NaN only,
  pandas 2 returns NaN, and \<^verbatim>\<open>.loc[nan]\<close> then raises KeyError.
\<close>

fun fval_less :: "fval \<Rightarrow> fval \<Rightarrow> bool" where
  "fval_less (Fin x) (Fin y) = (x < y)"
| "fval_less (Fin x) PInf = True"
| "fval_less NInf (Fin y) = True"
| "fval_less NInf PInf = True"
| "fval_less _ _ = False"

definition better :: "(fval \<Rightarrow> fval \<Rightarrow> bool) \<Rightarrow> nat \<times> fval \<Rightarrow> nat \<times> fval \<Rightarrow> nat \<times> fval" where
  "better lt b c = (if lt (snd b) (snd c) then c else b)"

definition idx_extreme :: "(fval \<Rightarrow> fval \<Rightarrow> bool) \<Rightarrow> fval list \<Rightarrow> error + nat" where
  "idx_extreme lt vs =
     (if vs = [] then Inl ValueError
      else case filter (\<lambda>p. snd p \<noteq> NaN) (enumerate 0 vs) of
             [] \<Rightarrow> Inl KeyError
           | p # ps \<Rightarrow> Inr (fst (foldl (better lt) p ps)))"

definition idxmax :: "fval list \<Rightarrow> error + nat" where
  "idxmax vs = idx_extreme fval_less vs"

definition idxmin :: "fval list \<Rightarrow> error + nat" where
  "idxmin vs = idx_extreme (\<lambda>a b. fval_less b a) vs"

section \<open>Date columns\<close>

text \<open>
  \<^verbatim>\<open>read_csv\<close> delivers a date column as text. Both cleaners parse it with
  \<^verbatim>\<open>pd.to_datetime\<close> as their last step, after the rows have been dropped; from
  then on a cell is a timestamp, in nanoseconds since 1970 (pandas'
  \<^verbatim>\<open>datetime64[ns]\<close>). \<^verbatim>\<open>pd.to_datetime\<close> leaves a column of timestamps as it is.

  The parser of the texts is pandas', not the scripts': the model takes it as the
  parameter \<open>to_datetime\<close>, a function from a text to its timestamp, or to \<open>None\<close>
  where pandas raises. Every theorem holds for every such function.
  Missing dates are not modelled.
\<close>

datatype date_cell = DateText string | Timestamp int

fun to_datetime_cell :: "(string \<Rightarrow> int option) \<Rightarrow> date_cell \<Rightarrow> int option" where
  "to_datetime_cell to_datetime (DateText s) = to_datetime s"
| "to_datetime_cell to_datetime (Timestamp t) = Some t"

text \<open>A column is parsed as a whole: one text that is no date raises.\<close>

fun parse_rows :: "('a \<Rightarrow> 'b option) \<Rightarrow> 'a list \<Rightarrow> error + 'b list" where
  "parse_rows f [] = Inr []"
| "parse_rows f (x # xs) =
     (case f x of
        None \<Rightarrow> Inl DateParseError
      | Some y \<Rightarrow> (case parse_rows f xs of Inl e \<Rightarrow> Inl e | Inr ys \<Rightarrow> Inr (y # ys)))"

definition ns_per_day :: int where
  "ns_per_day = 86400000000000"

text \<open>
  For the example tables, the part of pandas' parser that reads a year of four digits, a
  month and a day of one or two digits, separated by \<open>-\<close>, as midnight of that day:
  \<open>1970-01-02\<close> and \<open>1970-1-2\<close> are the same timestamp, one day after the epoch.
\<close>

definition digit :: "char \<Rightarrow> nat option" where
  "digit c = (let n = (of_char c :: nat) in if 48 \<le> n \<and> n \<le> 57 then Some (n - 48) else None)"

fun number_from :: "nat \<Rightarrow> string \<Rightarrow> nat option" where
  "number_from a [] = Some a"
| "number_from a (c # cs) =
     (case digit c of None \<Rightarrow> None | Some d \<Rightarrow> number_from (10 * a + d) cs)"

definition number :: "string \<Rightarrow> nat option" where
  "number s = (if s = [] then None else number_from 0 s)"

fun split_dash :: "string \<Rightarrow> string list" where
  "split_dash [] = [[]]"
| "split_dash (c # cs) =
     (if c = CHR ''-'' then [] # split_dash cs
      else case split_dash cs of [] \<Rightarrow> [[c]] | w # ws \<Rightarrow> (c # w) # ws)"

definition leap_year :: "nat \<Rightarrow> bool" where
  "leap_year y = (y mod 4 = 0 \<and> (y mod 100 \<noteq> 0 \<or> y mod 400 = 0))"

definition days_in_month :: "nat \<Rightarrow> nat \<Rightarrow> nat" where
  "days_in_month y m =
     (if m = 2 then (if leap_year y then 29 else 28)
      else if m = 4 \<or> m = 6 \<or> m = 9 \<or> m = 11 then 30 else 31)"

text \<open>The number of days from 1970-01-01 to the day \<open>d\<close> of month \<open>m\<close> of year \<open>y\<close>.\<close>

definition days_from_civil :: "nat \<Rightarrow> nat \<Rightarrow> nat \<Rightarrow> int" where
  "days_from_civil y m d =
     (let y' = (if m \<le> 2 then int y - 1 else int y);
          era = y' div 400;
          yoe = y' - era * 400;
          mp = (if 2 < m then int m - 3 else int m + 9);
          doy = (153 * mp + 2) div 5 + int d - 1;
          doe = yoe * 365 + yoe div 4 - yoe div 100 + doy
      in era * 146097 + doe - 719468)"

definition iso_date :: "string \<Rightarrow> int option" where
  "iso_date s =
     (case split_dash s of
        [ys, ms, ds] \<Rightarrow>
          (case (number ys, number ms, number ds) of
             (Some y, Some m, Some d) \<Rightarrow>
               if length ys = 4 \<and> length ms \<le> 2 \<and> length ds \<le> 2
                  \<and> 1678 \<le> y \<and> y \<le> 2261
                  \<and> 1 \<le> m \<and> m \<le> 12 \<and> 1 \<le> d \<and> d \<le> days_in_month y m
               then Some (days_from_civil y m d * ns_per_day)
               else None
           | _ \<Rightarrow> None)
      | _ \<Rightarrow> None)"

section \<open>analyze\_campaigns.py\<close>

text \<open>
  A row of \<^verbatim>\<open>marketing_campaigns.csv\<close>. \<open>Impressions\<close> and \<open>Conversions\<close> are
  \<^verbatim>\<open>int64\<close> columns. \<open>Clicks\<close> and \<open>Spend\<close> are the columns the cleaner tests for
  missing cells, and \<open>Revenue\<close> is an amount: \<^verbatim>\<open>float64\<close> columns. The cleaner does
  not look at \<open>Campaign_ID\<close>, which can be missing in a cleaned row too. The type
  \<open>'k\<close> of the identifiers is any ordered type (strings, numbers): \<^verbatim>\<open>groupby\<close> sorts the
  groups by it. The type \<open>'d\<close> of the date is \<open>date_cell\<close> in the table read from the
  file and \<open>int\<close>, the timestamp, in the cleaned table.
\<close>

record ('k, 'd) campaign_row =
  Date :: 'd
  Campaign_ID :: "'k option"
  Impressions :: int
  Clicks :: "real option"
  Conversions :: int
  Spend :: "real option"
  Revenue :: real

text \<open>
  The DataFrame: its rows, and the type pandas gave its number columns. From a file
  with a header and no data row, \<^verbatim>\<open>read_csv\<close> has nothing to infer a number type
  from: every column is of type \<^verbatim>\<open>object\<close>, and stays so through the cleaner. Such a
  frame has no rows.
\<close>

datatype dtype = Numeric | Object

record ('k, 'd) campaign_frame =
  number_dtype :: dtype
  frame_rows :: "('k, 'd) campaign_row list"

definition campaigns_read_csv :: "('k, date_cell) campaign_row list \<Rightarrow> ('k, date_cell) campaign_frame" where
  "campaigns_read_csv file_rows =
     \<lparr>number_dtype = (if file_rows = [] then Object else Numeric), frame_rows = file_rows\<rparr>"

text \<open>
  \<^verbatim>\<open>load_and_clean_data\<close>: \<^verbatim>\<open>read_csv\<close>, then \<^verbatim>\<open>dropna(subset=['Clicks', 'Spend'])\<close>,
  then \<^verbatim>\<open>df[df['Spend'] > 0]\<close>, then \<^verbatim>\<open>pd.to_datetime\<close> on the dates of the rows
  that are left. \<open>campaigns_clean\<close> is the part after \<^verbatim>\<open>read_csv\<close>, on a DataFrame.
\<close>

definition campaigns_dropna :: "('k, 'd) campaign_row list \<Rightarrow> ('k, 'd) campaign_row list" where
  "campaigns_dropna df = filter (\<lambda>r. Clicks r \<noteq> None \<and> Spend r \<noteq> None) df"

definition campaign_with_date :: "'e \<Rightarrow> ('k, 'd) campaign_row \<Rightarrow> ('k, 'e) campaign_row" where
  "campaign_with_date t r =
     \<lparr>Date = t, Campaign_ID = Campaign_ID r, Impressions = Impressions r, Clicks = Clicks r,
      Conversions = Conversions r, Spend = Spend r, Revenue = Revenue r\<rparr>"

definition campaign_to_datetime ::
  "(string \<Rightarrow> int option) \<Rightarrow> ('k, date_cell) campaign_row \<Rightarrow> ('k, int) campaign_row option" where
  "campaign_to_datetime to_datetime r =
     (case to_datetime_cell to_datetime (Date r) of
        None \<Rightarrow> None
      | Some t \<Rightarrow> Some (campaign_with_date t r))"

definition campaigns_clean ::
  "(string \<Rightarrow> int option) \<Rightarrow> ('k, date_cell) campaign_frame \<Rightarrow> error + ('k, int) campaign_frame" where
  "campaigns_clean to_datetime frame =
     (let df = campaigns_dropna (frame_rows frame);
          df = filter (\<lambda>r. gt_zero (Spend r)) df
      in case parse_rows (campaign_to_datetime to_datetime) df of
           Inl e \<Rightarrow> Inl e
         | Inr rows \<Rightarrow> Inr \<lparr>number_dtype = number_dtype frame, frame_rows = rows\<rparr>)"

definition campaigns_load_and_clean_data ::
  "(string \<Rightarrow> int option) \<Rightarrow> ('k, date_cell) campaign_row list \<Rightarrow> error + ('k, int) campaign_frame" where
  "campaigns_load_and_clean_data to_datetime file_rows =
     campaigns_clean to_datetime (campaigns_read_csv file_rows)"

text \<open>
  The locals of \<^verbatim>\<open>calculate_metrics\<close>, lines 27 to 37, on the rows of a frame with
  number columns.
\<close>

definition total_impressions :: "('k, 'd) campaign_row list \<Rightarrow> real" where
  "total_impressions df = real_of_int (int64_sum (map Impressions df))"

definition total_clicks :: "('k, 'd) campaign_row list \<Rightarrow> real" where
  "total_clicks df = sum_skipna (map Clicks df)"

definition total_conversions :: "('k, 'd) campaign_row list \<Rightarrow> real" where
  "total_conversions df = real_of_int (int64_sum (map Conversions df))"

definition total_spend :: "('k, 'd) campaign_row list \<Rightarrow> real" where
  "total_spend df = sum_skipna (map Spend df)"

definition total_revenue :: "('k, 'd) campaign_row list \<Rightarrow> real" where
  "total_revenue df = sum_list (map Revenue df)"

definition ctr :: "('k, 'd) campaign_row list \<Rightarrow> fval" where
  "ctr df = scale (true_divide (total_clicks df) (total_impressions df)) 100"

definition conversion_rate :: "('k, 'd) campaign_row list \<Rightarrow> fval" where
  "conversion_rate df = scale (true_divide (total_conversions df) (total_clicks df)) 100"

definition cpl :: "('k, 'd) campaign_row list \<Rightarrow> fval" where
  "cpl df = true_divide (total_spend df) (total_conversions df)"

definition roi :: "('k, 'd) campaign_row list \<Rightarrow> fval" where
  "roi df = scale (true_divide (total_revenue df - total_spend df) (total_spend df)) 100"

definition cac :: "('k, 'd) campaign_row list \<Rightarrow> fval" where
  "cac df = cpl df"

text \<open>
  \<^verbatim>\<open>campaign_stats\<close>, lines 42 to 46: one row per Campaign ID, in ascending order of
  the identifier (\<^verbatim>\<open>groupby\<close> sorts its keys), with the sums of Spend and Revenue of
  the group and the ROI computed from the two sums. The rows without a Campaign ID
  are in no group.

  The sum of a group is not computed by \<^verbatim>\<open>Series.sum()\<close> but by the grouped sum of
  \<^verbatim>\<open>groupby().agg\<close>, which adds the same doubles in another way: the two results can
  differ in their last digits. The model does not say what the grouped sum of a list of
  numbers is: it is the parameter \<open>grouped_sum\<close>, of which nothing is assumed.
\<close>

record 'k campaign_stat =
  stat_Campaign_ID :: 'k
  stat_Spend :: real
  stat_Revenue :: real
  stat_ROI :: fval

definition campaign_group ::
  "(real list \<Rightarrow> real) \<Rightarrow> ('k, 'd) campaign_row list \<Rightarrow> 'k \<Rightarrow> 'k campaign_stat" where
  "campaign_group grouped_sum df k =
     (let g = filter (\<lambda>r. Campaign_ID r = Some k) df;
          s = grouped_sum (present (map Spend g));
          v = grouped_sum (map Revenue g)
      in \<lparr>stat_Campaign_ID = k, stat_Spend = s, stat_Revenue = v,
          stat_ROI = scale (true_divide (v - s) s) 100\<rparr>)"

definition campaign_stats ::
  "(real list \<Rightarrow> real) \<Rightarrow> ('k::linorder, 'd) campaign_row list \<Rightarrow> 'k campaign_stat list" where
  "campaign_stats grouped_sum df =
     map (campaign_group grouped_sum df) (sort (remdups (present (map Campaign_ID df))))"

text \<open>
  The metrics mapping, and \<^verbatim>\<open>campaign_metrics.json\<close> as the state of the file
  system: \<open>None\<close> while the file has not been written.

  \<^verbatim>\<open>calculate_metrics\<close>: on a frame of \<^verbatim>\<open>object\<close> columns the five sums are the
  Python integer 0, and the division of line 33 raises ZeroDivisionError. On a frame
  with number columns the sums are numpy scalars, the divisions of lines 33 to 36 raise
  nothing, and the first statement that can raise is \<^verbatim>\<open>idxmax\<close>, line 48.
\<close>

record 'k campaign_metrics =
  CTR :: fval
  Conversion_Rate :: fval
  CPL :: fval
  ROI :: fval
  CAC :: fval
  Top_Campaign :: 'k
  Top_Campaign_ROI :: fval
  Bottom_Campaign :: 'k
  Bottom_Campaign_ROI :: fval

definition campaigns_calculate_metrics ::
  "(real list \<Rightarrow> real) \<Rightarrow> ('k::linorder, int) campaign_frame \<Rightarrow> 'k campaign_metrics option
     \<Rightarrow> (error + 'k campaign_metrics) \<times> 'k campaign_metrics option" where
  "campaigns_calculate_metrics grouped_sum frame file =
     (if number_dtype frame = Object then (Inl ZeroDivisionError, file)
      else
        let df = frame_rows frame;
            stats = campaign_stats grouped_sum df in
        case idxmax (map stat_ROI stats) of
          Inl e \<Rightarrow> (Inl e, file)
        | Inr i \<Rightarrow>
           (case idxmin (map stat_ROI stats) of
              Inl e \<Rightarrow> (Inl e, file)
            | Inr j \<Rightarrow>
               (let top_campaign = stats ! i;
                    bottom_campaign = stats ! j;
                    metrics = \<lparr>CTR = ctr df, Conversion_Rate = conversion_rate df,
                               CPL = cpl df, ROI = roi df, CAC = cac df,
                               Top_Campaign = stat_Campaign_ID top_campaign,
                               Top_Campaign_ROI = stat_ROI top_campaign,
                               Bottom_Campaign = stat_Campaign_ID bottom_campaign,
                               Bottom_Campaign_ROI = stat_ROI bottom_campaign\<rparr>
                in (Inr metrics, Some metrics))))"

text \<open>The first two steps of the script's main block, on a file that exists.\<close>

definition campaigns_main ::
  "(real list \<Rightarrow> real) \<Rightarrow> (string \<Rightarrow> int option) \<Rightarrow> ('k::linorder, date_cell) campaign_row list
     \<Rightarrow> 'k campaign_metrics option
     \<Rightarrow> (error + 'k campaign_metrics) \<times> 'k campaign_metrics option" where
  "campaigns_main grouped_sum to_datetime file_rows file =
     (case campaigns_load_and_clean_data to_datetime file_rows of
        Inl e \<Rightarrow> (Inl e, file)
      | Inr frame \<Rightarrow> campaigns_calculate_metrics grouped_sum frame file)"

section \<open>analyze\_customers.py\<close>

text \<open>
  A row of \<^verbatim>\<open>customer_transactions.csv\<close>. \<open>Customer_ID\<close> and \<open>Order_Amount\<close> are
  the columns the cleaner tests for missing cells. The type \<open>'d\<close> of the two dates is
  \<open>date_cell\<close> in the table read from the file and \<open>int\<close>, the timestamp, in the
  cleaned table.
\<close>

record ('k, 'd) customer_row =
  Customer_ID :: "'k option"
  Order_Date :: 'd
  Signup_Date :: 'd
  Order_Amount :: "real option"
  Category :: string

text \<open>\<^verbatim>\<open>DataFrame.drop_duplicates()\<close>: of rows equal in every column, the first is kept.\<close>

fun drop_seen :: "'a list \<Rightarrow> 'a list \<Rightarrow> 'a list" where
  "drop_seen seen [] = []"
| "drop_seen seen (x # xs) =
     (if x \<in> set seen then drop_seen seen xs else x # drop_seen (x # seen) xs)"

definition drop_duplicates :: "'a list \<Rightarrow> 'a list" where
  "drop_duplicates df = drop_seen [] df"

text \<open>
  \<^verbatim>\<open>load_and_clean_data\<close>, after \<^verbatim>\<open>read_csv\<close>: \<^verbatim>\<open>drop_duplicates\<close>, on the rows as
  read, with their dates as text; then \<^verbatim>\<open>dropna(subset=['Order Amount', 'Customer ID'])\<close>;
  then \<^verbatim>\<open>df[df['Order Amount'] > 0]\<close>; then \<^verbatim>\<open>pd.to_datetime\<close> on the Order Date
  and on the Signup Date of the rows that are left.
\<close>

definition customers_dropna :: "('k, 'd) customer_row list \<Rightarrow> ('k, 'd) customer_row list" where
  "customers_dropna df = filter (\<lambda>r. Order_Amount r \<noteq> None \<and> Customer_ID r \<noteq> None) df"

definition customer_with_dates :: "'e \<Rightarrow> 'e \<Rightarrow> ('k, 'd) customer_row \<Rightarrow> ('k, 'e) customer_row" where
  "customer_with_dates t u r =
     \<lparr>Customer_ID = Customer_ID r, Order_Date = t, Signup_Date = u,
      Order_Amount = Order_Amount r, Category = Category r\<rparr>"

definition customer_to_datetime ::
  "(string \<Rightarrow> int option) \<Rightarrow> ('k, date_cell) customer_row \<Rightarrow> ('k, int) customer_row option" where
  "customer_to_datetime to_datetime r =
     (case to_datetime_cell to_datetime (Order_Date r) of
        None \<Rightarrow> None
      | Some t \<Rightarrow>
         (case to_datetime_cell to_datetime (Signup_Date r) of
            None \<Rightarrow> None
          | Some u \<Rightarrow> Some (customer_with_dates t u r)))"

definition customers_load_and_clean_data ::
  "(string \<Rightarrow> int option) \<Rightarrow> ('k, date_cell) customer_row list \<Rightarrow> error + ('k, int) customer_row list" where
  "customers_load_and_clean_data to_datetime file_rows =
     (let df = customers_dropna (drop_duplicates file_rows);
          df = filter (\<lambda>r. gt_zero (Order_Amount r)) df
      in parse_rows (customer_to_datetime to_datetime) df)"

text \<open>
  \<^verbatim>\<open>df['Customer ID'].nunique()\<close> counts the distinct identifiers, missing ones apart.
  \<^verbatim>\<open>df.groupby('Customer ID')\<close> has one group per identifier, in ascending order,
  and leaves out the rows whose identifier is missing.
\<close>

definition active_customers :: "('k, int) customer_row list \<Rightarrow> nat" where
  "active_customers df = length (remdups (present (map Customer_ID df)))"

definition customer_keys :: "('k::linorder, int) customer_row list \<Rightarrow> 'k list" where
  "customer_keys df = sort (remdups (present (map Customer_ID df)))"

definition customer_group :: "('k, int) customer_row list \<Rightarrow> 'k \<Rightarrow> ('k, int) customer_row list" where
  "customer_group df k = filter (\<lambda>r. Customer_ID r = Some k) df"

text \<open>Retention, lines 45 to 47.\<close>

definition order_counts :: "('k::linorder, int) customer_row list \<Rightarrow> ('k \<times> nat) list" where
  "order_counts df = map (\<lambda>k. (k, length (customer_group df k))) (customer_keys df)"

definition retained_customers :: "('k::linorder, int) customer_row list \<Rightarrow> nat" where
  "retained_customers df = length (filter (\<lambda>p. 1 < snd p) (order_counts df))"

definition retention_rate :: "('k::linorder, int) customer_row list \<Rightarrow> real" where
  "retention_rate df = (real (retained_customers df) / real (active_customers df)) * 100"

text \<open>
  Churn, lines 52 to 57. \<^verbatim>\<open>max()\<close> of a date column is \<open>None\<close> (pandas' NaT) on an
  empty column. \<^verbatim>\<open>.dt.days\<close> is the number of whole days of a time difference, rounded
  down; a comparison with a missing number of days is false.
\<close>

fun series_max :: "int list \<Rightarrow> int option" where
  "series_max [] = None"
| "series_max (d # ds) = Some (foldl max d ds)"

fun dt_days :: "int option \<Rightarrow> int option \<Rightarrow> int option" where
  "dt_days (Some c) (Some d) = Some ((c - d) div ns_per_day)"
| "dt_days _ _ = None"

fun gt_days :: "int option \<Rightarrow> int \<Rightarrow> bool" where
  "gt_days None n = False"
| "gt_days (Some d) n = (n < d)"

definition last_order_date :: "('k::linorder, int) customer_row list \<Rightarrow> ('k \<times> int option) list" where
  "last_order_date df =
     map (\<lambda>k. (k, series_max (map Order_Date (customer_group df k)))) (customer_keys df)"

definition current_date :: "('k, int) customer_row list \<Rightarrow> int option" where
  "current_date df = series_max (map Order_Date df)"

definition days_inactive :: "('k::linorder, int) customer_row list \<Rightarrow> ('k \<times> int option) list" where
  "days_inactive df = map (\<lambda>p. (fst p, dt_days (current_date df) (snd p))) (last_order_date df)"

definition churned_customers :: "('k::linorder, int) customer_row list \<Rightarrow> nat" where
  "churned_customers df = length (filter (\<lambda>p. gt_days (snd p) 180) (days_inactive df))"

definition churn_rate :: "('k::linorder, int) customer_row list \<Rightarrow> real" where
  "churn_rate df = (real (churned_customers df) / real (active_customers df)) * 100"

text \<open>
  Segmentation, lines 61 to 68. \<^verbatim>\<open>Series.quantile(q)\<close> is pandas' default, linear
  interpolation: on the sorted values, the position is \<open>q * (n - 1)\<close>, and the result lies
  between the values at the two neighbouring positions. Of an empty column it is NaN.
  A comparison with NaN is false.
\<close>

definition lerp :: "real \<Rightarrow> real \<Rightarrow> real \<Rightarrow> real" where
  "lerp a b t = a + (b - a) * t"

definition quantile :: "real list \<Rightarrow> real \<Rightarrow> fval" where
  "quantile xs q =
     (if xs = [] then NaN
      else let s = sort xs;
               n = length s;
               pos = q * real (n - 1);
               lo = nat \<lfloor>pos\<rfloor>;
               hi = min (lo + 1) (n - 1);
               g = pos - real lo
           in Fin (lerp (s ! lo) (s ! hi) g))"

fun ge_cutoff :: "real \<Rightarrow> fval \<Rightarrow> bool" where
  "ge_cutoff x (Fin c) = (c \<le> x)"
| "ge_cutoff x NInf = True"
| "ge_cutoff x _ = False"

fun lt_cutoff :: "real \<Rightarrow> fval \<Rightarrow> bool" where
  "lt_cutoff x (Fin c) = (x < c)"
| "lt_cutoff x PInf = True"
| "lt_cutoff x _ = False"

definition customer_revenue :: "('k::linorder, int) customer_row list \<Rightarrow> ('k \<times> real) list" where
  "customer_revenue df =
     map (\<lambda>k. (k, sum_skipna (map Order_Amount (customer_group df k)))) (customer_keys df)"

definition high_cutoff :: "('k::linorder, int) customer_row list \<Rightarrow> fval" where
  "high_cutoff df = quantile (map snd (customer_revenue df)) 0.8"

definition med_cutoff :: "('k::linorder, int) customer_row list \<Rightarrow> fval" where
  "med_cutoff df = quantile (map snd (customer_revenue df)) 0.5"

definition high_value_count :: "('k::linorder, int) customer_row list \<Rightarrow> nat" where
  "high_value_count df =
     length (filter (\<lambda>p. ge_cutoff (snd p) (high_cutoff df)) (customer_revenue df))"

definition med_value_count :: "('k::linorder, int) customer_row list \<Rightarrow> nat" where
  "med_value_count df =
     length (filter (\<lambda>p. lt_cutoff (snd p) (high_cutoff df) \<and> ge_cutoff (snd p) (med_cutoff df))
               (customer_revenue df))"

definition low_value_count :: "('k::linorder, int) customer_row list \<Rightarrow> nat" where
  "low_value_count df =
     length (filter (\<lambda>p. lt_cutoff (snd p) (med_cutoff df)) (customer_revenue df))"

text \<open>
  The metrics mapping and \<^verbatim>\<open>calculate_metrics\<close>. \<^verbatim>\<open>len(df) / active_customers\<close> divides
  two Python integers and raises ZeroDivisionError when there is no customer; every later
  division is by the same, then positive, number. The values are stored as computed:
  the two decimals of the script's \<^verbatim>\<open>print\<close> are not applied to them.
\<close>

record customer_metrics =
  Active_Customers :: nat
  Buying_Frequency :: real
  Total_Revenue :: real
  Retention_Rate :: real
  Churn_Rate :: real
  High_Value_Cutoff :: fval
  High_Value_Count :: nat
  Medium_Value_Count :: nat
  Low_Value_Count :: nat

definition buying_freq :: "('k, int) customer_row list \<Rightarrow> real" where
  "buying_freq df = real (length df) / real (active_customers df)"

definition customers_total_revenue :: "('k, int) customer_row list \<Rightarrow> real" where
  "customers_total_revenue df = sum_skipna (map Order_Amount df)"

definition customers_calculate_metrics ::
  "('k::linorder, int) customer_row list \<Rightarrow> customer_metrics option
     \<Rightarrow> (error + customer_metrics) \<times> customer_metrics option" where
  "customers_calculate_metrics df file =
     (if active_customers df = 0 then (Inl ZeroDivisionError, file)
      else let metrics = \<lparr>Active_Customers = active_customers df,
                          Buying_Frequency = buying_freq df,
                          Total_Revenue = customers_total_revenue df,
                          Retention_Rate = retention_rate df,
                          Churn_Rate = churn_rate df,
                          High_Value_Cutoff = high_cutoff df,
                          High_Value_Count = high_value_count df,
                          Medium_Value_Count = med_value_count df,
                          Low_Value_Count = low_value_count df\<rparr>
           in (Inr metrics, Some metrics))"

section \<open>Properties stated about the results, and example tables\<close>

text \<open>A percentage between 0 and 100; NaN and the infinities are not.\<close>

fun in_percent_range :: "fval \<Rightarrow> bool" where
  "in_percent_range (Fin x) = (0 \<le> x \<and> x \<le> 100)"
| "in_percent_range _ = False"

text \<open>The row-wise comparison \<^verbatim>\<open>Clicks <= Impressions\<close>, false on a missing cell.\<close>

fun cell_le :: "real option \<Rightarrow> int \<Rightarrow> bool" where
  "cell_le None i = False"
| "cell_le (Some c) i = (c \<le> real_of_int i)"

text \<open>
  A cleaned DataFrame handed to the cleaner a second time: the same rows, whose dates are
  timestamps already.
\<close>

definition campaigns_cleaned_frame :: "('k, int) campaign_frame \<Rightarrow> ('k, date_cell) campaign_frame" where
  "campaigns_cleaned_frame frame =
     \<lparr>number_dtype = number_dtype frame,
      frame_rows = map (\<lambda>r. campaign_with_date (Timestamp (Date r)) r) (frame_rows frame)\<rparr>"

definition customers_cleaned_rows :: "('k, int) customer_row list \<Rightarrow> ('k, date_cell) customer_row list" where
  "customers_cleaned_rows df =
     map (\<lambda>r. customer_with_dates (Timestamp (Order_Date r)) (Timestamp (Signup_Date r)) r) df"

text \<open>
  The customer side, in the words of its description: the set of the customers of a
  table, the latest Order Date of one customer and of the whole table, and the customers
  whose latest order lies more than 180 whole days before the latest order of the table.
\<close>

definition customer_ids :: "('k, int) customer_row list \<Rightarrow> 'k set" where
  "customer_ids df = {k. \<exists>r\<in>set df. Customer_ID r = Some k}"

definition last_order :: "('k, int) customer_row list \<Rightarrow> 'k \<Rightarrow> int" where
  "last_order df k = Max (Order_Date ` {r \<in> set df. Customer_ID r = Some k})"

definition latest_order :: "('k, int) customer_row list \<Rightarrow> int" where
  "latest_order df = Max (Order_Date ` set df)"

definition churned_ids :: "('k, int) customer_row list \<Rightarrow> 'k set" where
  "churned_ids df =
     {k \<in> customer_ids df. 180 < (latest_order df - last_order df k) div ns_per_day}"

text \<open>A file of two campaign-days, none with a positive Spend.\<close>

definition no_spend_file :: "(nat, date_cell) campaign_row list" where
  "no_spend_file =
     [\<lparr>Date = DateText ''1970-01-01'', Campaign_ID = Some 1, Impressions = 100, Clicks = Some 5,
       Conversions = 1, Spend = Some 0, Revenue = 10\<rparr>,
      \<lparr>Date = DateText ''1970-01-02'', Campaign_ID = Some 2, Impressions = 50, Clicks = None,
       Conversions = 1, Spend = Some (- 3), Revenue = 0\<rparr>]"

text \<open>A file of one campaign, with a row without Clicks and a row without Spend, and the
  two rows the cleaner keeps: 10 clicks on 200 impressions, a revenue of 150 for a spend
  of 50.\<close>

definition one_campaign_file :: "(nat, date_cell) campaign_row list" where
  "one_campaign_file =
     [\<lparr>Date = DateText ''1970-01-01'', Campaign_ID = Some 7, Impressions = 150, Clicks = Some 4,
       Conversions = 1, Spend = Some 20, Revenue = 50\<rparr>,
      \<lparr>Date = DateText ''1970-01-01'', Campaign_ID = Some 7, Impressions = 10, Clicks = None,
       Conversions = 0, Spend = Some 5, Revenue = 0\<rparr>,
      \<lparr>Date = DateText ''1970-01-02'', Campaign_ID = Some 7, Impressions = 10, Clicks = Some 1,
       Conversions = 0, Spend = Some 0, Revenue = 0\<rparr>,
      \<lparr>Date = DateText ''1970-01-02'', Campaign_ID = Some 7, Impressions = 50, Clicks = Some 6,
       Conversions = 2, Spend = Some 30, Revenue = 100\<rparr>]"

definition one_campaign_table :: "(nat, int) campaign_row list" where
  "one_campaign_table =
     [\<lparr>Date = 0, Campaign_ID = Some 7, Impressions = 150, Clicks = Some 4,
       Conversions = 1, Spend = Some 20, Revenue = 50\<rparr>,
      \<lparr>Date = 86400000000000, Campaign_ID = Some 7, Impressions = 50, Clicks = Some 6,
       Conversions = 2, Spend = Some 30, Revenue = 100\<rparr>]"

text \<open>A clean table with no impression at all.\<close>

definition no_impression_file :: "(nat, date_cell) campaign_row list" where
  "no_impression_file =
     [\<lparr>Date = DateText ''1970-01-01'', Campaign_ID = Some 1, Impressions = 0, Clicks = Some 0,
       Conversions = 0, Spend = Some 2, Revenue = 0\<rparr>]"

definition no_impression_table :: "(nat, int) campaign_row list" where
  "no_impression_table =
     [\<lparr>Date = 0, Campaign_ID = Some 1, Impressions = 0, Clicks = Some 0,
       Conversions = 0, Spend = Some 2, Revenue = 0\<rparr>]"

text \<open>A clean table whose only row has a negative number of clicks.\<close>

definition negative_clicks_file :: "(nat, date_cell) campaign_row list" where
  "negative_clicks_file =
     [\<lparr>Date = DateText ''1970-01-01'', Campaign_ID = Some 1, Impressions = 10, Clicks = Some (- 5),
       Conversions = 0, Spend = Some 2, Revenue = 0\<rparr>]"

definition negative_clicks_table :: "(nat, int) campaign_row list" where
  "negative_clicks_table =
     [\<lparr>Date = 0, Campaign_ID = Some 1, Impressions = 10, Clicks = Some (- 5),
       Conversions = 0, Spend = Some 2, Revenue = 0\<rparr>]"

text \<open>A clean table of four rows with \<open>2^62\<close> impressions each and one row with 5: the
  \<^verbatim>\<open>int64\<close> sum of the column is 5.\<close>

definition wrapping_file :: "(nat, date_cell) campaign_row list" where
  "wrapping_file =
     [\<lparr>Date = DateText ''1970-01-01'', Campaign_ID = Some 1, Impressions = 4611686018427387904, Clicks = Some 2,
       Conversions = 0, Spend = Some 2, Revenue = 0\<rparr>,
      \<lparr>Date = DateText ''1970-01-02'', Campaign_ID = Some 1, Impressions = 4611686018427387904, Clicks = Some 2,
       Conversions = 0, Spend = Some 2, Revenue = 0\<rparr>,
      \<lparr>Date = DateText ''1970-01-03'', Campaign_ID = Some 1, Impressions = 4611686018427387904, Clicks = Some 2,
       Conversions = 0, Spend = Some 2, Revenue = 0\<rparr>,
      \<lparr>Date = DateText ''1970-01-04'', Campaign_ID = Some 1, Impressions = 4611686018427387904, Clicks = Some 2,
       Conversions = 0, Spend = Some 2, Revenue = 0\<rparr>,
      \<lparr>Date = DateText ''1970-01-05'', Campaign_ID = Some 1, Impressions = 5, Clicks = Some 2,
       Conversions = 0, Spend = Some 2, Revenue = 0\<rparr>]"

definition wrapping_table :: "(nat, int) campaign_row list" where
  "wrapping_table =
     [\<lparr>Date = 0, Campaign_ID = Some 1, Impressions = 4611686018427387904, Clicks = Some 2,
       Conversions = 0, Spend = Some 2, Revenue = 0\<rparr>,
      \<lparr>Date = 86400000000000, Campaign_ID = Some 1, Impressions = 4611686018427387904, Clicks = Some 2,
       Conversions = 0, Spend = Some 2, Revenue = 0\<rparr>,
      \<lparr>Date = 172800000000000, Campaign_ID = Some 1, Impressions = 4611686018427387904, Clicks = Some 2,
       Conversions = 0, Spend = Some 2, Revenue = 0\<rparr>,
      \<lparr>Date = 259200000000000, Campaign_ID = Some 1, Impressions = 4611686018427387904, Clicks = Some 2,
       Conversions = 0, Spend = Some 2, Revenue = 0\<rparr>,
      \<lparr>Date = 345600000000000, Campaign_ID = Some 1, Impressions = 5, Clicks = Some 2,
       Conversions = 0, Spend = Some 2, Revenue = 0\<rparr>]"

text \<open>A clean table with one Campaign ID, and a row without one.\<close>

definition missing_id_file :: "(nat, date_cell) campaign_row list" where
  "missing_id_file =
     [\<lparr>Date = DateText ''1970-01-01'', Campaign_ID = Some 7, Impressions = 100, Clicks = Some 4,
       Conversions = 1, Spend = Some 20, Revenue = 50\<rparr>,
      \<lparr>Date = DateText ''1970-01-02'', Campaign_ID = None, Impressions = 100, Clicks = Some 6,
       Conversions = 2, Spend = Some 30, Revenue = 100\<rparr>]"

definition missing_id_table :: "(nat, int) campaign_row list" where
  "missing_id_table =
     [\<lparr>Date = 0, Campaign_ID = Some 7, Impressions = 100, Clicks = Some 4,
       Conversions = 1, Spend = Some 20, Revenue = 50\<rparr>,
      \<lparr>Date = 86400000000000, Campaign_ID = None, Impressions = 100, Clicks = Some 6,
       Conversions = 2, Spend = Some 30, Revenue = 100\<rparr>]"

text \<open>
  Customer files and the tables the cleaner makes of them: three customers with one, two
  and three orders; two customers, the first last seen 200 days before the second; five
  customers with the same revenue; two customers whose last orders lie 200 and 10 days
  before 1970-07-20, a day on which the table has no order.
\<close>

text \<open>Order counts 1, 2 and 3; revenues 10, 25 and 24.\<close>

definition retention_file :: "(nat, date_cell) customer_row list" where
  "retention_file =
     [\<lparr>Customer_ID = Some 1, Order_Date = DateText ''1970-01-01'', Signup_Date = DateText ''1970-01-01'',
       Order_Amount = Some 10, Category = ''A''\<rparr>,
      \<lparr>Customer_ID = Some 2, Order_Date = DateText ''1970-01-02'', Signup_Date = DateText ''1970-01-01'',
       Order_Amount = Some 20, Category = ''A''\<rparr>,
      \<lparr>Customer_ID = Some 2, Order_Date = DateText ''1970-01-03'', Signup_Date = DateText ''1970-01-01'',
       Order_Amount = Some 5, Category = ''B''\<rparr>,
      \<lparr>Customer_ID = Some 3, Order_Date = DateText ''1970-01-04'', Signup_Date = DateText ''1970-01-01'',
       Order_Amount = Some 7, Category = ''A''\<rparr>,
      \<lparr>Customer_ID = Some 3, Order_Date = DateText ''1970-01-05'', Signup_Date = DateText ''1970-01-01'',
       Order_Amount = Some 8, Category = ''B''\<rparr>,
      \<lparr>Customer_ID = Some 3, Order_Date = DateText ''1970-01-06'', Signup_Date = DateText ''1970-01-01'',
       Order_Amount = Some 9, Category = ''C''\<rparr>]"

definition retention_table :: "(nat, int) customer_row list" where
  "retention_table =
     [\<lparr>Customer_ID = Some 1, Order_Date = 0, Signup_Date = 0,
       Order_Amount = Some 10, Category = ''A''\<rparr>,
      \<lparr>Customer_ID = Some 2, Order_Date = 86400000000000, Signup_Date = 0,
       Order_Amount = Some 20, Category = ''A''\<rparr>,
      \<lparr>Customer_ID = Some 2, Order_Date = 172800000000000, Signup_Date = 0,
       Order_Amount = Some 5, Category = ''B''\<rparr>,
      \<lparr>Customer_ID = Some 3, Order_Date = 259200000000000, Signup_Date = 0,
       Order_Amount = Some 7, Category = ''A''\<rparr>,
      \<lparr>Customer_ID = Some 3, Order_Date = 345600000000000, Signup_Date = 0,
       Order_Amount = Some 8, Category = ''B''\<rparr>,
      \<lparr>Customer_ID = Some 3, Order_Date = 432000000000000, Signup_Date = 0,
       Order_Amount = Some 9, Category = ''C''\<rparr>]"

text \<open>Customer 1 ordered last on 1970-01-01, customer 2 on 1970-07-20, 200 days later.\<close>

definition churn_file :: "(nat, date_cell) customer_row list" where
  "churn_file =
     [\<lparr>Customer_ID = Some 1, Order_Date = DateText ''1970-01-01'', Signup_Date = DateText ''1970-01-01'',
       Order_Amount = Some 10, Category = ''A''\<rparr>,
      \<lparr>Customer_ID = Some 2, Order_Date = DateText ''1970-07-10'', Signup_Date = DateText ''1970-01-01'',
       Order_Amount = Some 20, Category = ''A''\<rparr>,
      \<lparr>Customer_ID = Some 2, Order_Date = DateText ''1970-07-20'', Signup_Date = DateText ''1970-01-01'',
       Order_Amount = Some 5, Category = ''B''\<rparr>]"

definition churn_table :: "(nat, int) customer_row list" where
  "churn_table =
     [\<lparr>Customer_ID = Some 1, Order_Date = 0, Signup_Date = 0,
       Order_Amount = Some 10, Category = ''A''\<rparr>,
      \<lparr>Customer_ID = Some 2, Order_Date = 16416000000000000, Signup_Date = 0,
       Order_Amount = Some 20, Category = ''A''\<rparr>,
      \<lparr>Customer_ID = Some 2, Order_Date = 17280000000000000, Signup_Date = 0,
       Order_Amount = Some 5, Category = ''B''\<rparr>]"

text \<open>Five customers with a revenue of 10 each, one of them in two orders.\<close>

definition equal_revenue_file :: "(nat, date_cell) customer_row list" where
  "equal_revenue_file =
     [\<lparr>Customer_ID = Some 1, Order_Date = DateText ''1970-01-01'', Signup_Date = DateText ''1970-01-01'',
       Order_Amount = Some 10, Category = ''A''\<rparr>,
      \<lparr>Customer_ID = Some 2, Order_Date = DateText ''1970-01-02'', Signup_Date = DateText ''1970-01-01'',
       Order_Amount = Some 4, Category = ''A''\<rparr>,
      \<lparr>Customer_ID = Some 2, Order_Date = DateText ''1970-01-03'', Signup_Date = DateText ''1970-01-01'',
       Order_Amount = Some 6, Category = ''B''\<rparr>,
      \<lparr>Customer_ID = Some 3, Order_Date = DateText ''1970-01-04'', Signup_Date = DateText ''1970-01-01'',
       Order_Amount = Some 10, Category = ''A''\<rparr>,
      \<lparr>Customer_ID = Some 4, Order_Date = DateText ''1970-01-05'', Signup_Date = DateText ''1970-01-01'',
       Order_Amount = Some 10, Category = ''B''\<rparr>,
      \<lparr>Customer_ID = Some 5, Order_Date = DateText ''1970-01-06'', Signup_Date = DateText ''1970-01-01'',
       Order_Amount = Some 10, Category = ''C''\<rparr>]"

definition equal_revenue_table :: "(nat, int) customer_row list" where
  "equal_revenue_table =
     [\<lparr>Customer_ID = Some 1, Order_Date = 0, Signup_Date = 0,
       Order_Amount = Some 10, Category = ''A''\<rparr>,
      \<lparr>Customer_ID = Some 2, Order_Date = 86400000000000, Signup_Date = 0,
       Order_Amount = Some 4, Category = ''A''\<rparr>,
      \<lparr>Customer_ID = Some 2, Order_Date = 172800000000000, Signup_Date = 0,
       Order_Amount = Some 6, Category = ''B''\<rparr>,
      \<lparr>Customer_ID = Some 3, Order_Date = 259200000000000, Signup_Date = 0,
       Order_Amount = Some 10, Category = ''A''\<rparr>,
      \<lparr>Customer_ID = Some 4, Order_Date = 345600000000000, Signup_Date = 0,
       Order_Amount = Some 10, Category = ''B''\<rparr>,
      \<lparr>Customer_ID = Some 5, Order_Date = 432000000000000, Signup_Date = 0,
       Order_Amount = Some 10, Category = ''C''\<rparr>]"

text \<open>The last orders of customers 1 and 2 on 1970-01-01 and 1970-07-10.\<close>

definition scenario_file :: "(nat, date_cell) customer_row list" where
  "scenario_file =
     [\<lparr>Customer_ID = Some 1, Order_Date = DateText ''1970-01-01'', Signup_Date = DateText ''1970-01-01'',
       Order_Amount = Some 10, Category = ''A''\<rparr>,
      \<lparr>Customer_ID = Some 2, Order_Date = DateText ''1970-07-10'', Signup_Date = DateText ''1970-01-01'',
       Order_Amount = Some 20, Category = ''A''\<rparr>]"

definition scenario_table :: "(nat, int) customer_row list" where
  "scenario_table =
     [\<lparr>Customer_ID = Some 1, Order_Date = 0, Signup_Date = 0,
       Order_Amount = Some 10, Category = ''A''\<rparr>,
      \<lparr>Customer_ID = Some 2, Order_Date = 16416000000000000, Signup_Date = 0,
       Order_Amount = Some 20, Category = ''A''\<rparr>]"

text \<open>Two rows of the file that differ in the spelling of one date only, and the two equal
  rows the cleaner makes of them.\<close>

definition respelled_file :: "(nat, date_cell) customer_row list" where
  "respelled_file =
     [\<lparr>Customer_ID = Some 1, Order_Date = DateText ''1970-01-02'', Signup_Date = DateText ''1970-01-01'',
       Order_Amount = Some 10, Category = ''A''\<rparr>,
      \<lparr>Customer_ID = Some 1, Order_Date = DateText ''1970-1-2'', Signup_Date = DateText ''1970-01-01'',
       Order_Amount = Some 10, Category = ''A''\<rparr>]"

definition respelled_table :: "(nat, int) customer_row list" where
  "respelled_table =
     [\<lparr>Customer_ID = Some 1, Order_Date = 86400000000000, Signup_Date = 0,
       Order_Amount = Some 10, Category = ''A''\<rparr>,
      \<lparr>Customer_ID = Some 1, Order_Date = 86400000000000, Signup_Date = 0,
       Order_Amount = Some 10, Category = ''A''\<rparr>]"

text \<open>A file with a repeated row, a missing identifier, a refund and a missing amount,
  and the two rows the cleaner keeps.\<close>

definition dirty_customer_file :: "(nat, date_cell) customer_row list" where
  "dirty_customer_file =
     [\<lparr>Customer_ID = Some 1, Order_Date = DateText ''1970-01-01'', Signup_Date = DateText ''1970-01-01'',
       Order_Amount = Some 10, Category = ''A''\<rparr>,
      \<lparr>Customer_ID = None, Order_Date = DateText ''1970-01-02'', Signup_Date = DateText ''1970-01-01'',
       Order_Amount = Some 20, Category = ''A''\<rparr>,
      \<lparr>Customer_ID = Some 1, Order_Date = DateText ''1970-01-01'', Signup_Date = DateText ''1970-01-01'',
       Order_Amount = Some 10, Category = ''A''\<rparr>,
      \<lparr>Customer_ID = Some 2, Order_Date = DateText ''1970-01-04'', Signup_Date = DateText ''1970-01-01'',
       Order_Amount = Some (- 4), Category = ''B''\<rparr>,
      \<lparr>Customer_ID = Some 2, Order_Date = DateText ''1970-01-05'', Signup_Date = DateText ''1970-01-01'',
       Order_Amount = None, Category = ''B''\<rparr>,
      \<lparr>Customer_ID = Some 3, Order_Date = DateText ''1970-01-06'', Signup_Date = DateText ''1970-01-01'',
       Order_Amount = Some 9, Category = ''C''\<rparr>]"

definition dirty_customer_table :: "(nat, int) customer_row list" where
  "dirty_customer_table =
     [\<lparr>Customer_ID = Some 1, Order_Date = 0, Signup_Date = 0,
       Order_Amount = Some 10, Category = ''A''\<rparr>,
      \<lparr>Customer_ID = Some 3, Order_Date = 432000000000000, Signup_Date = 0,
       Order_Amount = Some 9, Category = ''C''\<rparr>]"

section \<open>Lemmas on the campaign pipeline\<close>

lemma campaign_stats_Nil: "campaign_stats grouped_sum [] = []"
  by (simp add: campaign_stats_def)

lemma idxmax_Nil: "idxmax [] = Inl ValueError"
  by (simp add: idxmax_def idx_extreme_def)

lemma gt_zero_Some: "gt_zero c \<longleftrightarrow> (\<exists>v. c = Some v \<and> 0 < v)"
  by (cases c) auto

lemma remdups_single: "set xs = {k} \<Longrightarrow> remdups xs = [k]"
proof (induction xs)
  case Nil
  then show ?case by simp
next
  case (Cons x xs)
  then have x: "x = k" and sub: "set xs \<subseteq> {k}" by auto
  show ?case
  proof (cases "xs = []")
    case True
    then show ?thesis using x by simp
  next
    case False
    then have "set xs = {k}" using sub by (cases xs) auto
    then show ?thesis using Cons.IH x by simp
  qed
qed

lemma set_present: "set (present cs) = {v. Some v \<in> set cs}"
  by (induction cs rule: present.induct) auto

lemma sum_skipna_present: "sum_skipna cs = sum_list (present cs)"
  by (induction cs rule: sum_skipna.induct) auto

lemma sum_skipna_pos:
  "cs \<noteq> [] \<Longrightarrow> \<forall>c\<in>set cs. gt_zero c \<Longrightarrow> 0 < sum_skipna cs"
proof (induction cs rule: sum_skipna.induct)
  case (3 v cs)
  then show ?case by (cases cs) (auto simp: add_pos_pos)
qed auto

lemma parse_rows_set:
  "parse_rows f xs = Inr ys \<Longrightarrow> y \<in> set ys \<Longrightarrow> \<exists>x\<in>set xs. f x = Some y"
  by (induction xs arbitrary: ys) (auto split: option.splits sum.splits)

lemma parse_rows_map:
  "\<forall>x\<in>set xs. f x = Some (g x) \<Longrightarrow> parse_rows f xs = Inr (map g xs)"
  by (induction xs) auto

lemma parse_rows_Nil_iff: "parse_rows f xs = Inr [] \<longleftrightarrow> xs = []"
  by (cases xs) (auto split: option.splits sum.splits)

lemma campaign_to_datetime_fields:
  "campaign_to_datetime to_datetime x = Some r \<Longrightarrow>
     Campaign_ID r = Campaign_ID x \<and> Impressions r = Impressions x \<and> Clicks r = Clicks x
     \<and> Conversions r = Conversions x \<and> Spend r = Spend x \<and> Revenue r = Revenue x"
  by (auto simp: campaign_to_datetime_def campaign_with_date_def split: option.splits)

lemma campaigns_cleaned_row:
  assumes "campaigns_load_and_clean_data to_datetime file_rows = Inr frame"
    and "r \<in> set (frame_rows frame)"
  shows "\<exists>c s. Clicks r = Some c \<and> Spend r = Some s \<and> 0 < s"
proof -
  let ?df = "filter (\<lambda>r. gt_zero (Spend r)) (campaigns_dropna file_rows)"
  have "parse_rows (campaign_to_datetime to_datetime) ?df = Inr (frame_rows frame)"
    using assms(1)
    by (auto simp: campaigns_load_and_clean_data_def campaigns_clean_def campaigns_read_csv_def
        Let_def split: sum.splits)
  from parse_rows_set[OF this assms(2)]
  obtain x where x: "x \<in> set ?df" "campaign_to_datetime to_datetime x = Some r"
    by blast
  have "\<exists>c s. Clicks x = Some c \<and> Spend x = Some s \<and> 0 < s"
    using x(1) by (auto simp: campaigns_dropna_def gt_zero_Some)
  then show ?thesis using campaign_to_datetime_fields[OF x(2)] by simp
qed

lemma campaigns_cleaned_spend_pos:
  assumes "campaigns_load_and_clean_data to_datetime file_rows = Inr frame"
    and "frame_rows frame \<noteq> []"
  shows "0 < total_spend (frame_rows frame)"
  unfolding total_spend_def
proof (rule sum_skipna_pos)
  show "map Spend (frame_rows frame) \<noteq> []" using assms(2) by simp
  show "\<forall>c\<in>set (map Spend (frame_rows frame)). gt_zero c"
    using campaigns_cleaned_row[OF assms(1)] by (auto simp: gt_zero_Some)
qed

lemma wrap64_id: "0 \<le> n \<Longrightarrow> n < 9223372036854775808 \<Longrightarrow> wrap64 n = n"
  by (simp add: wrap64_def)

lemma clicks_bounds:
  "\<forall>r\<in>set df. \<exists>c. Clicks r = Some c \<and> 0 \<le> c \<and> c \<le> real_of_int (Impressions r) \<Longrightarrow>
     0 \<le> sum_skipna (map Clicks df)
     \<and> sum_skipna (map Clicks df) \<le> real_of_int (sum_list (map Impressions df))"
  by (induction df) auto

lemmas campaign_table_defs =
  campaigns_load_and_clean_data_def campaigns_clean_def campaigns_read_csv_def
  campaigns_dropna_def campaign_to_datetime_def campaign_with_date_def
  total_impressions_def int64_sum_def wrap64_def
  total_clicks_def total_spend_def total_revenue_def

lemmas iso_date_defs =
  iso_date_def number_def digit_def days_in_month_def leap_year_def
  days_from_civil_def ns_per_day_def Let_def

section \<open>Lemmas on the customer pipeline and on a second pass of the cleaners\<close>

lemma customer_ids_present: "customer_ids df = set (present (map Customer_ID df))"
  by (auto simp: customer_ids_def set_present image_iff) metis

lemma finite_customer_ids: "finite (customer_ids df)"
  by (simp add: customer_ids_present)

lemma set_customer_keys: "set (customer_keys df) = customer_ids df"
  by (simp add: customer_keys_def customer_ids_present)

lemma distinct_customer_keys: "distinct (customer_keys df)"
  by (simp add: customer_keys_def)

lemma length_customer_keys: "length (customer_keys df) = active_customers df"
  by (simp add: customer_keys_def active_customers_def)

lemma active_customers_card: "active_customers df = card (customer_ids df)"
  by (simp add: active_customers_def customer_ids_present length_remdups_card_conv)

lemma set_drop_seen: "set (drop_seen seen xs) = set xs - set seen"
  by (induction seen xs rule: drop_seen.induct) auto

lemma distinct_drop_seen: "distinct (drop_seen seen xs)"
  by (induction seen xs rule: drop_seen.induct) (auto simp: set_drop_seen)

lemma drop_seen_distinct_id:
  "distinct xs \<Longrightarrow> set xs \<inter> set seen = {} \<Longrightarrow> drop_seen seen xs = xs"
  by (induction seen xs rule: drop_seen.induct) auto

lemma drop_duplicates_distinct_id: "distinct xs \<Longrightarrow> drop_duplicates xs = xs"
  by (simp add: drop_duplicates_def drop_seen_distinct_id)

lemma drop_seen_map:
  "inj f \<Longrightarrow> drop_seen (map f seen) (map f xs) = map f (drop_seen seen xs)"
  by (induction seen xs rule: drop_seen.induct) (auto simp: inj_image_mem_iff)

lemma drop_duplicates_map: "inj f \<Longrightarrow> drop_duplicates (map f xs) = map f (drop_duplicates xs)"
  using drop_seen_map[of f "[]" xs] by (simp add: drop_duplicates_def)

lemma set_drop_duplicates: "set (drop_duplicates xs) = set xs"
  by (simp add: drop_duplicates_def set_drop_seen)

lemma parse_rows_back:
  "\<forall>y\<in>set ys. f (h y) = Some y \<Longrightarrow> parse_rows f (map h ys) = Inr ys"
  by (induction ys) auto

lemma customer_to_datetime_fields:
  "customer_to_datetime to_datetime x = Some r \<Longrightarrow>
     Customer_ID r = Customer_ID x \<and> Order_Amount r = Order_Amount x \<and> Category r = Category x"
  by (auto simp: customer_to_datetime_def customer_with_dates_def split: option.splits)

lemma customers_cleaned_row:
  assumes "customers_load_and_clean_data to_datetime file_rows = Inr df"
    and "r \<in> set df"
  shows "\<exists>k a. Customer_ID r = Some k \<and> Order_Amount r = Some a \<and> 0 < a"
proof -
  let ?xs = "filter (\<lambda>r. gt_zero (Order_Amount r)) (customers_dropna (drop_duplicates file_rows))"
  have "parse_rows (customer_to_datetime to_datetime) ?xs = Inr df"
    using assms(1) by (simp add: customers_load_and_clean_data_def Let_def)
  from parse_rows_set[OF this assms(2)]
  obtain x where x: "x \<in> set ?xs" "customer_to_datetime to_datetime x = Some r"
    by blast
  have "\<exists>k a. Customer_ID x = Some k \<and> Order_Amount x = Some a \<and> 0 < a"
    using x(1) by (auto simp: customers_dropna_def gt_zero_Some)
  then show ?thesis using customer_to_datetime_fields[OF x(2)] by simp
qed

lemma customer_again_inj:
  "inj (\<lambda>r::('k, int) customer_row.
          customer_with_dates (Timestamp (Order_Date r)) (Timestamp (Signup_Date r)) r)"
  by (rule injI) (simp add: customer_with_dates_def customer_row.equality)

lemma customer_again_back:
  "customer_to_datetime to_datetime
     (customer_with_dates (Timestamp (Order_Date r)) (Timestamp (Signup_Date r)) r) = Some r"
  by (simp add: customer_to_datetime_def customer_with_dates_def)

lemma customers_second_pass:
  assumes "customers_load_and_clean_data to_datetime file_rows = Inr df"
  shows "customers_load_and_clean_data to_datetime (customers_cleaned_rows df) =
           Inr (drop_duplicates df)"
proof -
  let ?T = "\<lambda>r::('k, int) customer_row.
              customer_with_dates (Timestamp (Order_Date r)) (Timestamp (Signup_Date r)) r"
  let ?ys = "drop_duplicates df"
  have d: "drop_duplicates (map ?T df) = map ?T ?ys"
    by (rule drop_duplicates_map) (rule customer_again_inj)
  have ok: "\<forall>r\<in>set ?ys. Order_Amount r \<noteq> None \<and> Customer_ID r \<noteq> None
              \<and> gt_zero (Order_Amount r)"
    using customers_cleaned_row[OF assms] by (fastforce simp: set_drop_duplicates)
  have f1: "customers_dropna (map ?T ?ys) = map ?T ?ys"
    using ok by (simp add: customers_dropna_def customer_with_dates_def filter_map comp_def)
  have f2: "filter (\<lambda>r. gt_zero (Order_Amount r)) (map ?T ?ys) = map ?T ?ys"
    using ok by (simp add: customer_with_dates_def filter_map comp_def)
  have p: "parse_rows (customer_to_datetime to_datetime) (map ?T ?ys) = Inr ?ys"
    by (rule parse_rows_back) (simp add: customer_again_back)
  show ?thesis
    by (simp add: customers_load_and_clean_data_def customers_cleaned_rows_def d f1 f2 p)
qed

lemma campaign_again_back:
  "campaign_to_datetime to_datetime (campaign_with_date (Timestamp (Date r)) r) = Some r"
  by (simp add: campaign_to_datetime_def campaign_with_date_def)

lemma campaigns_second_pass:
  assumes "campaigns_load_and_clean_data to_datetime file_rows = Inr frame"
  shows "campaigns_clean to_datetime (campaigns_cleaned_frame frame) = Inr frame"
proof -
  let ?T = "\<lambda>r::('k, int) campaign_row. campaign_with_date (Timestamp (Date r)) r"
  let ?ys = "frame_rows frame"
  have ok: "\<forall>r\<in>set ?ys. Clicks r \<noteq> None \<and> Spend r \<noteq> None \<and> gt_zero (Spend r)"
    using campaigns_cleaned_row[OF assms] by (fastforce simp: gt_zero_Some)
  have f1: "campaigns_dropna (map ?T ?ys) = map ?T ?ys"
    using ok by (simp add: campaigns_dropna_def campaign_with_date_def filter_map comp_def)
  have f2: "filter (\<lambda>r. gt_zero (Spend r)) (map ?T ?ys) = map ?T ?ys"
    using ok by (simp add: campaign_with_date_def filter_map comp_def)
  have p: "parse_rows (campaign_to_datetime to_datetime) (map ?T ?ys) = Inr ?ys"
    by (rule parse_rows_back) (simp add: campaign_again_back)
  show ?thesis
    by (simp add: campaigns_clean_def campaigns_cleaned_frame_def f1 f2 p)
qed

lemma cleaned_active_pos:
  assumes "customers_load_and_clean_data to_datetime file_rows = Inr df" "df \<noteq> []"
  shows "0 < active_customers df"
proof -
  obtain r where r: "r \<in> set df" using assms(2) by (cases df) auto
  then obtain k where "Customer_ID r = Some k"
    using customers_cleaned_row[OF assms(1)] by blast
  then have "k \<in> customer_ids df" using r by (auto simp: customer_ids_def)
  then show ?thesis
    using finite_customer_ids[of df] by (auto simp: active_customers_card card_gt_0_iff)
qed

lemma fold_foldl_max: "fold max ds (d::int) = foldl max d ds"
  by (induction ds arbitrary: d) (simp_all add: max.commute)

lemma foldl_max: "foldl max (d::int) ds = Max (set (d # ds))"
  by (simp only: Max.set_eq_fold fold_foldl_max)

lemma series_max_Max: "ds \<noteq> [] \<Longrightarrow> series_max ds = Some (Max (set ds))"
  by (cases ds) (simp_all only: series_max.simps foldl_max, simp)

lemma set_customer_group: "set (customer_group df k) = {r \<in> set df. Customer_ID r = Some k}"
  by (auto simp: customer_group_def)

lemma customer_group_nonempty: "k \<in> customer_ids df \<Longrightarrow> customer_group df k \<noteq> []"
  by (auto simp: customer_ids_def customer_group_def filter_empty_conv)

lemma last_order_list: "last_order df k = Max (set (map Order_Date (customer_group df k)))"
  by (simp add: last_order_def set_customer_group)

lemma group_series_max:
  "k \<in> customer_ids df \<Longrightarrow>
     series_max (map Order_Date (customer_group df k)) = Some (last_order df k)"
  using customer_group_nonempty[of k df]
  by (simp add: series_max_Max last_order_list del: set_map)

lemma current_date_latest: "df \<noteq> [] \<Longrightarrow> current_date df = Some (latest_order df)"
  by (simp add: current_date_def latest_order_def series_max_Max)

lemma days_inactive_eq:
  assumes "df \<noteq> []"
  shows "days_inactive df =
     map (\<lambda>k. (k, Some ((latest_order df - last_order df k) div ns_per_day))) (customer_keys df)"
  unfolding days_inactive_def last_order_date_def map_map
  by (rule map_cong) (simp_all add: set_customer_keys group_series_max current_date_latest[OF assms])

lemma churned_customers_card:
  assumes "df \<noteq> []"
  shows "churned_customers df = card (churned_ids df)"
proof -
  have "churned_customers df =
      length (filter (\<lambda>k. 180 < (latest_order df - last_order df k) div ns_per_day) (customer_keys df))"
    by (simp add: churned_customers_def days_inactive_eq[OF assms] comp_def)
  also have "\<dots> = card ({k. 180 < (latest_order df - last_order df k) div ns_per_day} \<inter> set (customer_keys df))"
    by (rule distinct_length_filter) (rule distinct_customer_keys)
  also have "{k. 180 < (latest_order df - last_order df k) div ns_per_day} \<inter> set (customer_keys df)
              = churned_ids df"
    by (auto simp: churned_ids_def set_customer_keys)
  finally show ?thesis .
qed

lemma max_holder:
  assumes "customers_load_and_clean_data to_datetime file_rows = Inr df" "df \<noteq> []"
  shows "\<exists>k\<in>customer_ids df. last_order df k = latest_order df"
proof -
  have "latest_order df \<in> Order_Date ` set df"
    unfolding latest_order_def using assms(2) by (intro Max_in) auto
  then obtain r where r: "r \<in> set df" "Order_Date r = latest_order df" by auto
  then obtain k where k: "Customer_ID r = Some k"
    using customers_cleaned_row[OF assms(1)] by blast
  have kin: "k \<in> customer_ids df" using r(1) k by (auto simp: customer_ids_def)
  let ?G = "Order_Date ` {r \<in> set df. Customer_ID r = Some k}"
  have "latest_order df \<in> ?G" using r k by force
  then have "latest_order df \<le> Max ?G" by (intro Max_ge) auto
  moreover have "Max ?G \<le> Max (Order_Date ` set df)"
    using r k by (intro Max_mono) auto
  ultimately have "last_order df k = latest_order df"
    by (simp add: last_order_def latest_order_def)
  with kin show ?thesis by blast
qed

lemma count_list_group: "length (customer_group df k) = count_list (map Customer_ID df) (Some k)"
  by (induction df) (auto simp: customer_group_def)

lemma retained_customers_card:
  "retained_customers df = card {k. 1 < count_list (map Customer_ID df) (Some k)}"
proof -
  have "retained_customers df =
      length (filter (\<lambda>k. 1 < count_list (map Customer_ID df) (Some k)) (customer_keys df))"
    by (simp add: retained_customers_def order_counts_def comp_def count_list_group)
  also have "\<dots> = card ({k. 1 < count_list (map Customer_ID df) (Some k)} \<inter> set (customer_keys df))"
    by (rule distinct_length_filter) (rule distinct_customer_keys)
  also have "{k. 1 < count_list (map Customer_ID df) (Some k)} \<inter> set (customer_keys df)
              = {k. 1 < count_list (map Customer_ID df) (Some k)}"
  proof -
    have "k \<in> customer_ids df" if "1 < count_list (map Customer_ID df) (Some k)" for k
    proof -
      have "count_list (map Customer_ID df) (Some k) \<noteq> 0" using that by simp
      then have "Some k \<in> set (map Customer_ID df)" using count_list_0_iff by metis
      then show ?thesis by (auto simp: customer_ids_def)
    qed
    then show ?thesis by (auto simp: set_customer_keys)
  qed
  finally show ?thesis .
qed

lemma lerp_bounds: "a \<le> b \<Longrightarrow> 0 \<le> t \<Longrightarrow> t \<le> 1 \<Longrightarrow> a \<le> lerp a b t \<and> lerp a b t \<le> b"
proof -
  assume a: "a \<le> b" "0 \<le> t" "t \<le> 1"
  have "0 \<le> (b - a) * t" using a by simp
  moreover have "(b - a) * t \<le> (b - a) * 1"
    using a by (intro mult_left_mono) auto
  ultimately show ?thesis by (simp add: lerp_def)
qed

lemma lerp_mono: "a \<le> b \<Longrightarrow> t \<le> t' \<Longrightarrow> lerp a b t \<le> lerp a b t'"
  by (simp add: lerp_def mult_left_mono)

lemma quantile_Fin:
  "xs \<noteq> [] \<Longrightarrow> \<exists>c. quantile xs q = Fin c"
  by (simp add: quantile_def Let_def)

lemma quantile_mono:
  assumes "xs \<noteq> []" "0 \<le> q" "q \<le> q'" "q' \<le> 1"
    and "quantile xs q = Fin c" "quantile xs q' = Fin c'"
  shows "c \<le> c'"
proof -
  define s where "s = sort xs"
  define N where "N = length s - 1"
  define lo where "lo = nat \<lfloor>q * real N\<rfloor>"
  define lo' where "lo' = nat \<lfloor>q' * real N\<rfloor>"
  define hi where "hi = min (lo + 1) N"
  define hi' where "hi' = min (lo' + 1) N"
  define g where "g = q * real N - real lo"
  define g' where "g' = q' * real N - real lo'"
  have srt: "sorted s" by (simp add: s_def)
  have len: "length s = N + 1" using assms(1) by (cases xs) (auto simp: N_def s_def)
  have c: "c = lerp (s ! lo) (s ! hi) g"
    using assms(1,5) by (simp add: quantile_def Let_def s_def N_def lo_def hi_def g_def)
  have c': "c' = lerp (s ! lo') (s ! hi') g'"
    using assms(1,6) by (simp add: quantile_def Let_def s_def N_def lo'_def hi'_def g'_def)
  have p0: "0 \<le> q * real N" using assms(2) by simp
  have pp: "q * real N \<le> q' * real N" using assms(3) by (simp add: mult_right_mono)
  have p1: "q' * real N \<le> real N" using mult_right_mono[of q' 1 "real N"] assms(4) by simp
  have p0': "0 \<le> q' * real N" using p0 pp by linarith
  have lolo: "lo \<le> lo'" unfolding lo_def lo'_def using pp by (intro nat_mono floor_mono)
  have "\<lfloor>q' * real N\<rfloor> \<le> \<lfloor>real N\<rfloor>" using p1 by (rule floor_mono)
  then have lo'N: "lo' \<le> N" by (simp add: lo'_def)
  have gl: "real lo = of_int \<lfloor>q * real N\<rfloor>" using p0 by (simp add: lo_def)
  have gl': "real lo' = of_int \<lfloor>q' * real N\<rfloor>" using p0' by (simp add: lo'_def)
  have g01: "0 \<le> g \<and> g \<le> 1" unfolding g_def gl by linarith
  have g01': "0 \<le> g' \<and> g' \<le> 1" unfolding g'_def gl' by linarith
  have hiN: "hi \<le> N" "hi' \<le> N" by (simp_all add: hi_def hi'_def)
  have lohi: "lo \<le> hi" "lo' \<le> hi'" using lolo lo'N by (simp_all add: hi_def hi'_def)
  have ab: "s ! lo \<le> s ! hi" using srt lohi(1) hiN(1) len by (simp add: sorted_nth_mono)
  have ab': "s ! lo' \<le> s ! hi'" using srt lohi(2) hiN(2) len by (simp add: sorted_nth_mono)
  show ?thesis
  proof (cases "lo = lo'")
    case True
    then have "hi = hi'" by (simp add: hi_def hi'_def)
    moreover have "g \<le> g'" using pp True by (simp add: g_def g'_def)
    ultimately show ?thesis using ab True by (simp add: c c' lerp_mono)
  next
    case False
    then have "hi \<le> lo'" using lolo lo'N by (simp add: hi_def)
    then have "s ! hi \<le> s ! lo'" using srt lo'N len by (simp add: sorted_nth_mono)
    moreover have "c \<le> s ! hi" using lerp_bounds[OF ab] g01 by (simp add: c)
    moreover have "s ! lo' \<le> c'" using lerp_bounds[OF ab'] g01' by (simp add: c')
    ultimately show ?thesis by linarith
  qed
qed

lemma quantile_const:
  assumes "set xs = {v}" "0 \<le> q" "q \<le> 1"
  shows "quantile xs q = Fin v"
proof -
  define s where "s = sort xs"
  define N where "N = length s - 1"
  define lo where "lo = nat \<lfloor>q * real N\<rfloor>"
  have ne: "xs \<noteq> []" using assms(1) by auto
  have len: "length s = N + 1" using ne by (cases xs) (auto simp: N_def s_def)
  have "q * real N \<le> real N" using mult_right_mono[of q 1 "real N"] assms(3) by simp
  then have "\<lfloor>q * real N\<rfloor> \<le> \<lfloor>real N\<rfloor>" by (rule floor_mono)
  then have loN: "lo \<le> N" by (simp add: lo_def)
  have all: "\<And>i. i \<le> N \<Longrightarrow> s ! i = v"
  proof -
    fix i assume "i \<le> N"
    then have "s ! i \<in> set s" using len by simp
    then show "s ! i = v" using assms(1) by (simp add: s_def)
  qed
  have "s ! lo = v" using all loN by simp
  moreover have "s ! min (lo + 1) N = v" using all by simp
  moreover have "quantile xs q = Fin (lerp (s ! lo) (s ! min (lo + 1) N) (q * real N - real lo))"
    using ne by (simp add: quantile_def Let_def s_def N_def lo_def)
  ultimately show ?thesis
    by (simp add: lerp_def)
qed

lemma three_way_count:
  "\<forall>x\<in>set xs. (P x \<and> \<not> Q x \<and> \<not> R x) \<or> (\<not> P x \<and> Q x \<and> \<not> R x) \<or> (\<not> P x \<and> \<not> Q x \<and> R x) \<Longrightarrow>
     length (filter P xs) + length (filter Q xs) + length (filter R xs) = length xs"
  by (induction xs) auto

lemmas customer_table_defs =
  customers_load_and_clean_data_def customers_dropna_def drop_duplicates_def
  customer_to_datetime_def customer_with_dates_def
  customer_keys_def customer_group_def active_customers_def

lemma calculate_metrics_returns:
  assumes "0 < active_customers df"
  shows "customers_calculate_metrics df file =
     (Inr \<lparr>Active_Customers = active_customers df,
                          Buying_Frequency = buying_freq df,
                          Total_Revenue = customers_total_revenue df,
                          Retention_Rate = retention_rate df,
                          Churn_Rate = churn_rate df,
                          High_Value_Cutoff = high_cutoff df,
                          High_Value_Count = high_value_count df,
                          Medium_Value_Count = med_value_count df,
                          Low_Value_Count = low_value_count df\<rparr>,
      Some \<lparr>Active_Customers = active_customers df,
                          Buying_Frequency = buying_freq df,
                          Total_Revenue = customers_total_revenue df,
                          Retention_Rate = retention_rate df,
                          Churn_Rate = churn_rate df,
                          High_Value_Cutoff = high_cutoff df,
                          High_Value_Count = high_value_count df,
                          Medium_Value_Count = med_value_count df,
                          Low_Value_Count = low_value_count df\<rparr>)"
  using assms by (simp add: customers_calculate_metrics_def Let_def)

lemma two_customers_churned:
  assumes "customers_load_and_clean_data to_datetime file_rows = Inr df"
    and "a \<noteq> b" and "customer_ids df = {a, b}"
    and "(latest_order df - last_order df a) div ns_per_day = 200"
  shows "last_order df b = latest_order df \<and> churned_ids df = {a}"
proof -
  have ne: "df \<noteq> []" using assms(3) by (auto simp: customer_ids_def)
  obtain k where k: "k \<in> customer_ids df" "last_order df k = latest_order df"
    using max_holder[OF assms(1) ne] by blast
  have "k \<noteq> a" using k(2) assms(4) by auto
  then have kb: "k = b" using k(1) assms(3) by auto
  have "churned_ids df = {a}"
    using assms(2,3,4) k(2) kb by (auto simp: churned_ids_def)
  then show ?thesis using k(2) kb by simp
qed

lemma length_customer_revenue: "length (customer_revenue df) = active_customers df"
  by (simp add: customer_revenue_def length_customer_keys)

lemma cutoffs_ordered:
  assumes "0 < active_customers df"
  shows "\<exists>h c. high_cutoff df = Fin h \<and> med_cutoff df = Fin c \<and> c \<le> h"
proof -
  let ?xs = "map snd (customer_revenue df)"
  have ne: "?xs \<noteq> []"
    using assms length_customer_revenue[of df] by auto
  obtain h where h: "quantile ?xs 0.8 = Fin h" using quantile_Fin[OF ne] by blast
  obtain c where c: "quantile ?xs 0.5 = Fin c" using quantile_Fin[OF ne] by blast
  have "c \<le> h" by (rule quantile_mono[OF ne _ _ _ c h]) simp_all
  then show ?thesis using h c by (simp add: high_cutoff_def med_cutoff_def)
qed

section \<open>The claims on the campaign pipeline\<close>

text \<open>
  C1, as the code has it. When every row of the file has Spend \<open>\<le> 0\<close> (or no Spend),
  cleaning leaves no row and the pipeline ends with an exception before
  \<^verbatim>\<open>campaign_metrics.json\<close> is opened: the file stays as it was, and no metrics
  record is written, with NaN or otherwise. When the file has at least one row, the
  exception is the one \<^verbatim>\<open>idxmax\<close> raises on the empty ROI column of
  \<^verbatim>\<open>campaign_stats\<close>, a ValueError: this is the script's report of an empty dataset.
  When the file has no data row at all, the exception is the ZeroDivisionError of the
  first division, line 33.
\<close>

theorem empty_after_filter_no_record:
  assumes "\<forall>r\<in>set file_rows. \<forall>s. Spend r = Some s \<longrightarrow> s \<le> 0"
  shows "campaigns_load_and_clean_data to_datetime file_rows =
           Inr \<lparr>number_dtype = (if file_rows = [] then Object else Numeric), frame_rows = []\<rparr>
       \<and> campaigns_main grouped_sum to_datetime file_rows file =
           (Inl (if file_rows = [] then ZeroDivisionError else ValueError), file)"
proof -
  have "filter (\<lambda>r. gt_zero (Spend r)) (campaigns_dropna file_rows) = []"
    using assms by (auto simp: campaigns_dropna_def filter_empty_conv gt_zero_Some)
  then have e: "campaigns_load_and_clean_data to_datetime file_rows =
           Inr \<lparr>number_dtype = (if file_rows = [] then Object else Numeric), frame_rows = []\<rparr>"
    by (simp add: campaigns_load_and_clean_data_def campaigns_clean_def campaigns_read_csv_def)
  show ?thesis
    by (simp add: e campaigns_main_def campaigns_calculate_metrics_def
        campaign_stats_Nil idxmax_Nil)
qed

theorem empty_after_filter_no_record_witness:
  "campaigns_load_and_clean_data iso_date no_spend_file =
     Inr \<lparr>number_dtype = Numeric, frame_rows = []\<rparr>
   \<and> campaigns_main sum_list iso_date no_spend_file None = (Inl ValueError, None)"
  using empty_after_filter_no_record [of no_spend_file iso_date sum_list None]
  by (simp add: no_spend_file_def)

theorem empty_after_filter_no_record_counterexample:
  "list_all (\<lambda>r. \<not> gt_zero (Spend r)) ([] :: (nat, date_cell) campaign_row list)
   \<and> campaigns_main sum_list iso_date ([] :: (nat, date_cell) campaign_row list) None
       = (Inl ZeroDivisionError, None)
   \<and> campaigns_main sum_list iso_date ([] :: (nat, date_cell) campaign_row list) None
       \<noteq> (Inl ValueError, None)"
  by (simp add: campaigns_main_def campaigns_calculate_metrics_def campaign_table_defs)



text \<open>
  C5, as the code has it. The claim fails on a cleaned table with one Campaign ID and
  a row without a Campaign ID: the row counts in the overall \<open>roi\<close> and is in no group.
  When every row of a cleaned table has the same Campaign ID \<open>k\<close>, \<^verbatim>\<open>campaign_stats\<close>
  has one row, the group of \<open>k\<close>, which holds every row of the table; its ROI is the
  overall \<open>roi\<close>, a finite number, when the grouped sums of Spend and Revenue are the
  sums \<^verbatim>\<open>Series.sum()\<close> computes for the table. The two are sums of the same numbers
  by two routines, equal in exact arithmetic and on numbers that add without rounding.
\<close>

theorem single_campaign_roi_is_overall_roi:
  assumes "campaigns_load_and_clean_data to_datetime file_rows = Inr frame"
    and "df = frame_rows frame"
    and "set (map Campaign_ID df) = {Some k}"
    and "grouped_sum (present (map Spend df)) = total_spend df"
    and "grouped_sum (map Revenue df) = total_revenue df"
  shows "campaign_stats grouped_sum df =
           [\<lparr>stat_Campaign_ID = k, stat_Spend = total_spend df,
             stat_Revenue = total_revenue df, stat_ROI = roi df\<rparr>]
         \<and> roi df = Fin (100 * (total_revenue df - total_spend df) / total_spend df)"
proof -
  have "set (present (map Campaign_ID df)) = {k}"
    using assms(3) by (auto simp: set_present)
  then have keys: "remdups (present (map Campaign_ID df)) = [k]"
    by (rule remdups_single)
  have "\<forall>r\<in>set df. Campaign_ID r = Some k" using assms(3) by auto
  then have grp: "filter (\<lambda>r. Campaign_ID r = Some k) df = df" by simp
  have "df \<noteq> []" using assms(3) by auto
  then have pos: "0 < total_spend df"
    using campaigns_cleaned_spend_pos[OF assms(1)] assms(2) by simp
  have stats: "campaign_stats grouped_sum df =
           [\<lparr>stat_Campaign_ID = k, stat_Spend = total_spend df,
             stat_Revenue = total_revenue df, stat_ROI = roi df\<rparr>]"
    by (simp add: campaign_stats_def keys campaign_group_def grp roi_def Let_def assms(4,5))
  have "roi df = Fin (100 * (total_revenue df - total_spend df) / total_spend df)"
    using pos by (simp add: roi_def true_divide_def)
  with stats show ?thesis by simp
qed

theorem single_campaign_roi_is_overall_roi_witness:
  "campaigns_load_and_clean_data iso_date one_campaign_file =
     Inr \<lparr>number_dtype = Numeric, frame_rows = one_campaign_table\<rparr>
   \<and> set (map Campaign_ID one_campaign_table) = {Some 7}
   \<and> sum_list (present (map Spend one_campaign_table)) = total_spend one_campaign_table
   \<and> sum_list (map Revenue one_campaign_table) = total_revenue one_campaign_table
   \<and> map stat_ROI (campaign_stats sum_list one_campaign_table) = [Fin 200]
   \<and> roi one_campaign_table = Fin 200"
proof -
  have h1: "campaigns_load_and_clean_data iso_date one_campaign_file =
     Inr \<lparr>number_dtype = Numeric, frame_rows = one_campaign_table\<rparr>"
    by (simp add: one_campaign_file_def one_campaign_table_def campaign_table_defs
        iso_date_defs)
  have h2: "one_campaign_table =
     frame_rows \<lparr>number_dtype = Numeric, frame_rows = one_campaign_table\<rparr>"
    by simp
  have h3: "set (map Campaign_ID one_campaign_table) = {Some 7}"
    by (simp add: one_campaign_table_def)
  have h4: "sum_list (present (map Spend one_campaign_table)) = total_spend one_campaign_table"
    by (simp add: total_spend_def sum_skipna_present)
  have h5: "sum_list (map Revenue one_campaign_table) = total_revenue one_campaign_table"
    by (simp add: total_revenue_def)
  have r: "100 * (total_revenue one_campaign_table - total_spend one_campaign_table)
             / total_spend one_campaign_table = 200"
    by (simp add: one_campaign_table_def campaign_table_defs)
  show ?thesis
    using single_campaign_roi_is_overall_roi [OF h1 h2 h3 h4 h5] h1 h3 h4 h5 r by simp
qed

theorem single_campaign_roi_is_overall_roi_counterexample:
  "campaigns_load_and_clean_data iso_date missing_id_file =
     Inr \<lparr>number_dtype = Numeric, frame_rows = missing_id_table\<rparr>
   \<and> remdups (present (map Campaign_ID missing_id_table)) = [7]
   \<and> map stat_ROI (campaign_stats sum_list missing_id_table) = [Fin 150]
   \<and> roi missing_id_table = Fin 200"
  by (simp add: missing_id_file_def missing_id_table_def campaign_table_defs iso_date_defs
      campaign_stats_def campaign_group_def roi_def true_divide_def)

text \<open>
  C6, as the code has it. The claim fails on a cleaned table with no impression (its
  \<open>ctr\<close> is NaN), on one with a negative number of clicks, and on one whose
  Impressions are so many that their \<^verbatim>\<open>int64\<close> sum wraps around. When in every row
  the number of clicks lies between 0 and the impressions of the row, and the
  Impressions add up to a positive number of at most \<open>2^53 = 9007199254740992\<close>, \<open>ctr\<close>
  is a number between 0 and 100. Up to \<open>2^53\<close> every whole number is a double, so that
  the sums of the two columns are the same in doubles as in exact arithmetic.
\<close>

theorem ctr_in_percent_range:
  assumes "\<forall>r\<in>set df. \<exists>c. Clicks r = Some c \<and> 0 \<le> c \<and> c \<le> real_of_int (Impressions r)"
    and "0 < sum_list (map Impressions df)"
    and "sum_list (map Impressions df) \<le> 9007199254740992"
  shows "total_impressions df = real_of_int (sum_list (map Impressions df))
       \<and> in_percent_range (ctr df)"
proof -
  have ti: "total_impressions df = real_of_int (sum_list (map Impressions df))"
    using assms(2,3) by (simp add: total_impressions_def int64_sum_def wrap64_id)
  have b: "0 \<le> total_clicks df \<and> total_clicks df \<le> total_impressions df"
    unfolding total_clicks_def ti using assms(1) by (rule clicks_bounds)
  have pos: "0 < total_impressions df" using assms(2) by (simp add: ti)
  define q where "q = total_clicks df / total_impressions df"
  have q: "0 \<le> q \<and> q \<le> 1"
    using b pos by (simp add: q_def)
  have "ctr df = Fin (q * 100)"
    using pos by (simp add: ctr_def true_divide_def q_def)
  moreover have "0 \<le> q * 100 \<and> q * 100 \<le> 100"
    using q by simp
  ultimately show ?thesis using ti by simp
qed

theorem ctr_in_percent_range_witness:
  "campaigns_load_and_clean_data iso_date one_campaign_file =
     Inr \<lparr>number_dtype = Numeric, frame_rows = one_campaign_table\<rparr>
   \<and> list_all (\<lambda>r. cell_le (Clicks r) (Impressions r)) one_campaign_table
   \<and> sum_list (map Impressions one_campaign_table) = 200
   \<and> ctr one_campaign_table = Fin 5
   \<and> in_percent_range (ctr one_campaign_table)"
proof -
  have h0: "campaigns_load_and_clean_data iso_date one_campaign_file =
     Inr \<lparr>number_dtype = Numeric, frame_rows = one_campaign_table\<rparr>"
    by (simp add: one_campaign_file_def one_campaign_table_def campaign_table_defs
        iso_date_defs)
  have h1: "\<forall>r\<in>set one_campaign_table.
              \<exists>c. Clicks r = Some c \<and> 0 \<le> c \<and> c \<le> real_of_int (Impressions r)"
    by (simp add: one_campaign_table_def)
  have s: "sum_list (map Impressions one_campaign_table) = 200"
    by (simp add: one_campaign_table_def)
  have h2: "0 < sum_list (map Impressions one_campaign_table)"
    and h3: "sum_list (map Impressions one_campaign_table) \<le> 9007199254740992"
    by (simp_all add: s)
  have l: "list_all (\<lambda>r. cell_le (Clicks r) (Impressions r)) one_campaign_table"
    by (simp add: one_campaign_table_def)
  have c: "ctr one_campaign_table = Fin 5"
    by (simp add: one_campaign_table_def campaign_table_defs ctr_def true_divide_def)
  show ?thesis
    using ctr_in_percent_range [OF h1 h2 h3] h0 l s c by simp
qed

theorem ctr_in_percent_range_counterexample:
  "campaigns_load_and_clean_data iso_date no_impression_file =
     Inr \<lparr>number_dtype = Numeric, frame_rows = no_impression_table\<rparr>
   \<and> list_all (\<lambda>r. cell_le (Clicks r) (Impressions r)) no_impression_table
   \<and> ctr no_impression_table = NaN
   \<and> \<not> in_percent_range (ctr no_impression_table)
   \<and> campaigns_load_and_clean_data iso_date negative_clicks_file =
     Inr \<lparr>number_dtype = Numeric, frame_rows = negative_clicks_table\<rparr>
   \<and> list_all (\<lambda>r. cell_le (Clicks r) (Impressions r)) negative_clicks_table
   \<and> ctr negative_clicks_table = Fin (- 50)
   \<and> \<not> in_percent_range (ctr negative_clicks_table)
   \<and> campaigns_load_and_clean_data iso_date wrapping_file =
     Inr \<lparr>number_dtype = Numeric, frame_rows = wrapping_table\<rparr>
   \<and> list_all (\<lambda>r. cell_le (Clicks r) (Impressions r)) wrapping_table
   \<and> total_impressions wrapping_table = 5
   \<and> ctr wrapping_table = Fin 200
   \<and> \<not> in_percent_range (ctr wrapping_table)"
proof -
  have "campaigns_load_and_clean_data iso_date no_impression_file =
     Inr \<lparr>number_dtype = Numeric, frame_rows = no_impression_table\<rparr>
   \<and> list_all (\<lambda>r. cell_le (Clicks r) (Impressions r)) no_impression_table
   \<and> ctr no_impression_table = NaN"
    by (simp add: no_impression_file_def no_impression_table_def campaign_table_defs
        iso_date_defs ctr_def true_divide_def)
  moreover have "campaigns_load_and_clean_data iso_date negative_clicks_file =
     Inr \<lparr>number_dtype = Numeric, frame_rows = negative_clicks_table\<rparr>
   \<and> list_all (\<lambda>r. cell_le (Clicks r) (Impressions r)) negative_clicks_table
   \<and> ctr negative_clicks_table = Fin (- 50)"
    by (simp add: negative_clicks_file_def negative_clicks_table_def campaign_table_defs
        iso_date_defs ctr_def true_divide_def)
  moreover have "campaigns_load_and_clean_data iso_date wrapping_file =
     Inr \<lparr>number_dtype = Numeric, frame_rows = wrapping_table\<rparr>"
    by (simp add: wrapping_file_def wrapping_table_def campaign_table_defs iso_date_defs)
  moreover have "list_all (\<lambda>r. cell_le (Clicks r) (Impressions r)) wrapping_table
   \<and> total_impressions wrapping_table = 5
   \<and> ctr wrapping_table = Fin 200"
    by (simp add: wrapping_table_def campaign_table_defs ctr_def true_divide_def)
  ultimately show ?thesis by simp
qed

section \<open>The claims on the customer pipeline and on both cleaners\<close>

text \<open>
  C7, as the code has it. The claim fails for the customer cleaner: it drops repeated
  rows while the dates are still text, and parses the dates last, so that two rows that
  differ in the spelling of a date only (\<open>1970-01-02\<close> and \<open>1970-1-2\<close>) both
  survive, equal to each other; a second pass over the cleaned table drops one of them.
  The campaign cleaner, which drops no repeated row, is idempotent. A second pass of the
  customer cleaner over a cleaned table does what \<^verbatim>\<open>drop_duplicates\<close> does, and
  nothing else: the table stays as it is whenever its rows are pairwise distinct.
\<close>

theorem cleaning_idempotent:
  "(campaigns_load_and_clean_data to_datetime file_rows = Inr frame \<longrightarrow>
      campaigns_clean to_datetime (campaigns_cleaned_frame frame) = Inr frame)
   \<and> (customers_load_and_clean_data to_datetime file_rows' = Inr df \<longrightarrow>
        customers_load_and_clean_data to_datetime (customers_cleaned_rows df)
          = Inr (drop_duplicates df)
      \<and> (distinct df \<longrightarrow>
            customers_load_and_clean_data to_datetime (customers_cleaned_rows df) = Inr df))"
  using campaigns_second_pass customers_second_pass
  by (metis drop_duplicates_distinct_id)

theorem cleaning_idempotent_witness:
  "campaigns_load_and_clean_data iso_date one_campaign_file =
     Inr \<lparr>number_dtype = Numeric, frame_rows = one_campaign_table\<rparr>
   \<and> length one_campaign_file = 4 \<and> length one_campaign_table = 2
   \<and> campaigns_clean iso_date
        (campaigns_cleaned_frame \<lparr>number_dtype = Numeric, frame_rows = one_campaign_table\<rparr>)
       = Inr \<lparr>number_dtype = Numeric, frame_rows = one_campaign_table\<rparr>
   \<and> customers_load_and_clean_data iso_date dirty_customer_file = Inr dirty_customer_table
   \<and> length dirty_customer_file = 6 \<and> length dirty_customer_table = 2
   \<and> distinct dirty_customer_table
   \<and> customers_load_and_clean_data iso_date (customers_cleaned_rows dirty_customer_table)
       = Inr dirty_customer_table"
proof -
  have h1: "campaigns_load_and_clean_data iso_date one_campaign_file =
     Inr \<lparr>number_dtype = Numeric, frame_rows = one_campaign_table\<rparr>"
    by (simp add: one_campaign_file_def one_campaign_table_def campaign_table_defs
        iso_date_defs)
  have h2: "customers_load_and_clean_data iso_date dirty_customer_file = Inr dirty_customer_table"
    by (simp add: dirty_customer_file_def dirty_customer_table_def customer_table_defs
        iso_date_defs)
  have h3: "distinct dirty_customer_table"
    by (simp add: dirty_customer_table_def)
  have l: "length one_campaign_file = 4 \<and> length one_campaign_table = 2
     \<and> length dirty_customer_file = 6 \<and> length dirty_customer_table = 2"
    by (simp add: one_campaign_file_def one_campaign_table_def dirty_customer_file_def
        dirty_customer_table_def)
  show ?thesis
    using cleaning_idempotent [of iso_date one_campaign_file
        "\<lparr>number_dtype = Numeric, frame_rows = one_campaign_table\<rparr>"
        dirty_customer_file dirty_customer_table]
      h1 h2 h3 l
    by (simp add: drop_duplicates_distinct_id)
qed

theorem cleaning_idempotent_counterexample:
  "customers_load_and_clean_data iso_date respelled_file = Inr respelled_table
   \<and> length respelled_file = 2 \<and> length respelled_table = 2
   \<and> customers_load_and_clean_data iso_date (customers_cleaned_rows respelled_table)
       = Inr [hd respelled_table]
   \<and> customers_load_and_clean_data iso_date (customers_cleaned_rows respelled_table)
       \<noteq> Inr respelled_table"
proof -
  have "customers_load_and_clean_data iso_date respelled_file = Inr respelled_table"
    by (simp add: respelled_file_def respelled_table_def customer_table_defs iso_date_defs)
  moreover have "customers_load_and_clean_data iso_date (customers_cleaned_rows respelled_table)
       = Inr [hd respelled_table]"
    by (simp add: respelled_table_def customers_cleaned_rows_def customer_table_defs)
  moreover have "length respelled_file = 2 \<and> length respelled_table = 2"
    by (simp add: respelled_file_def respelled_table_def)
  moreover have "[hd respelled_table] \<noteq> respelled_table"
    by (simp add: respelled_table_def)
  ultimately show ?thesis by simp
qed

text \<open>
  C8. On a cleaned table with at least one row, \<^verbatim>\<open>calculate_metrics\<close> returns and
  writes a record whose Retention Rate is 100 times the number of customers with more
  than one order row, over the number of customers. With three customers of one, two and
  three orders the stored value is \<open>200 / 3\<close>, not the rounded \<open>66.67\<close>.
\<close>

theorem retention_rate_is_share_of_repeat_customers:
  assumes "customers_load_and_clean_data to_datetime file_rows = Inr df" and "df \<noteq> []"
  shows "\<exists>m. customers_calculate_metrics df file = (Inr m, Some m)
           \<and> Active_Customers m = card (customer_ids df)
           \<and> Retention_Rate m =
               100 * real (card {k. 1 < count_list (map Customer_ID df) (Some k)})
                 / real (card (customer_ids df))"
proof -
  have pos: "0 < active_customers df" using assms by (rule cleaned_active_pos)
  show ?thesis
    unfolding calculate_metrics_returns[OF pos]
    by (simp add: retention_rate_def retained_customers_card active_customers_card)
qed

theorem retention_rate_is_share_of_repeat_customers_witness:
  "customers_load_and_clean_data iso_date retention_file = Inr retention_table
   \<and> retention_table \<noteq> []
   \<and> map snd (order_counts retention_table) = [1, 2, 3]
   \<and> (\<exists>m. customers_calculate_metrics retention_table None = (Inr m, Some m)
          \<and> Active_Customers m = 3
          \<and> Retention_Rate m = 200 / 3 \<and> Retention_Rate m \<noteq> 66.67)
   \<and> 100 * real (card {k. 1 < count_list (map Customer_ID retention_table) (Some k)})
        / real (card (customer_ids retention_table)) = 200 / 3"
proof -
  have h1: "customers_load_and_clean_data iso_date retention_file = Inr retention_table"
    by (simp add: retention_file_def retention_table_def customer_table_defs iso_date_defs)
  have h2: "retention_table \<noteq> []"
    by (simp add: retention_table_def)
  have a: "active_customers retention_table = 3"
    by (simp add: retention_table_def customer_table_defs)
  have c: "map snd (order_counts retention_table) = [1, 2, 3]"
    by (simp add: retention_table_def customer_table_defs order_counts_def)
  have r: "retention_rate retention_table = 200 / 3"
    by (simp add: retention_table_def customer_table_defs retention_rate_def
        retained_customers_def order_counts_def)
  have m: "customers_calculate_metrics retention_table None = (Inr m, Some m) \<Longrightarrow>
            Retention_Rate m = 200 / 3 \<and> Active_Customers m = 3" for m
    using a r by (auto simp: customers_calculate_metrics_def Let_def)
  obtain m where ret: "customers_calculate_metrics retention_table None = (Inr m, Some m)"
    and eq: "Retention_Rate m =
               100 * real (card {k. 1 < count_list (map Customer_ID retention_table) (Some k)})
                 / real (card (customer_ids retention_table))"
    using retention_rate_is_share_of_repeat_customers [OF h1 h2, of None] by blast
  have v: "Retention_Rate m = 200 / 3 \<and> Active_Customers m = 3"
    using m ret by blast
  have "(200 / 3 :: real) \<noteq> 66.67" by simp
  then have "\<exists>m. customers_calculate_metrics retention_table None = (Inr m, Some m)
          \<and> Active_Customers m = 3
          \<and> Retention_Rate m = 200 / 3 \<and> Retention_Rate m \<noteq> 66.67"
    using ret v by auto
  moreover have "100 * real (card {k. 1 < count_list (map Customer_ID retention_table) (Some k)})
        / real (card (customer_ids retention_table)) = 200 / 3"
    using eq v by simp
  ultimately show ?thesis
    using h1 h2 c by blast
qed

text \<open>
  C3. On a cleaned table with at least one row, the current date of the churn
  computation is the latest Order Date of the table, not the time of the run; the days
  of inactivity of a customer are the whole days from that customer's latest order to
  it; the churned customers are those with more than 180 such days, and the stored Churn
  Rate is 100 times their number over the number of customers. When one of exactly two
  customers lies 200 whole days before the latest Order Date, the Churn Rate is 50,
  wherever the other customer lies: this holds of the table of the scenario, with last
  orders 200 and 10 days before a reference day, where the days of inactivity are 190
  and 0.
\<close>

theorem churn_rate_relative_to_latest_order:
  assumes "customers_load_and_clean_data to_datetime file_rows = Inr df" and "df \<noteq> []"
  shows "current_date df = Some (latest_order df)
       \<and> days_inactive df =
           map (\<lambda>k. (k, Some ((latest_order df - last_order df k) div ns_per_day)))
             (customer_keys df)
       \<and> churned_customers df = card (churned_ids df)
       \<and> (\<exists>m. customers_calculate_metrics df file = (Inr m, Some m)
             \<and> Churn_Rate m =
                 100 * real (card (churned_ids df)) / real (card (customer_ids df))
             \<and> (\<forall>a b. a \<noteq> b \<and> customer_ids df = {a, b}
                     \<and> (latest_order df - last_order df a) div ns_per_day = 200
                   \<longrightarrow> Churn_Rate m = 50))"
proof -
  have pos: "0 < active_customers df" using assms by (rule cleaned_active_pos)
  have rate: "churn_rate df = 100 * real (card (churned_ids df)) / real (card (customer_ids df))"
    by (simp add: churn_rate_def churned_customers_card[OF assms(2)] active_customers_card)
  have two: "churn_rate df = 50"
    if "a \<noteq> b" "customer_ids df = {a, b}"
      "(latest_order df - last_order df a) div ns_per_day = 200" for a b
  proof -
    have "churned_ids df = {a}"
      using two_customers_churned[OF assms(1) that] by simp
    then show ?thesis using that(1,2) by (simp add: rate)
  qed
  show ?thesis
    unfolding calculate_metrics_returns[OF pos]
    using current_date_latest[OF assms(2)] days_inactive_eq[OF assms(2)]
      churned_customers_card[OF assms(2)] rate two
    by auto
qed

theorem churn_rate_relative_to_latest_order_witness:
  "customers_load_and_clean_data iso_date churn_file = Inr churn_table
   \<and> churn_table \<noteq> []
   \<and> customer_ids churn_table = {1, 2}
   \<and> days_inactive churn_table = [(1, Some 200), (2, Some 0)]
   \<and> (\<exists>m. customers_calculate_metrics churn_table None = (Inr m, Some m)
          \<and> Churn_Rate m = 50)
   \<and> 100 * real (card (churned_ids churn_table)) / real (card (customer_ids churn_table)) = 50
   \<and> customers_load_and_clean_data iso_date scenario_file = Inr scenario_table
   \<and> days_inactive scenario_table = [(1, Some 190), (2, Some 0)]
   \<and> (\<exists>m. customers_calculate_metrics scenario_table None = (Inr m, Some m)
          \<and> Churn_Rate m = 50)"
proof -
  have h1: "customers_load_and_clean_data iso_date churn_file = Inr churn_table"
    by (simp add: churn_file_def churn_table_def customer_table_defs iso_date_defs)
  have h2: "churn_table \<noteq> []"
    by (simp add: churn_table_def)
  have ids: "customer_ids churn_table = {1, 2}"
    by (simp add: customer_ids_present churn_table_def)
  have d: "days_inactive churn_table = [(1, Some 200), (2, Some 0)]"
    by (simp add: churn_table_def customer_table_defs days_inactive_def last_order_date_def
        current_date_def ns_per_day_def)
  have keys: "customer_keys churn_table = [1, 2]"
    by (simp add: churn_table_def customer_table_defs)
  obtain m where ret: "customers_calculate_metrics churn_table None = (Inr m, Some m)"
    and eq: "Churn_Rate m =
       100 * real (card (churned_ids churn_table)) / real (card (customer_ids churn_table))"
    and two: "\<forall>a b. a \<noteq> b \<and> customer_ids churn_table = {a, b}
                \<and> (latest_order churn_table - last_order churn_table a) div ns_per_day = 200
              \<longrightarrow> Churn_Rate m = 50"
    and di: "days_inactive churn_table =
           map (\<lambda>k. (k, Some ((latest_order churn_table - last_order churn_table k) div ns_per_day)))
             (customer_keys churn_table)"
    using churn_rate_relative_to_latest_order [OF h1 h2, of None] by blast
  have "(latest_order churn_table - last_order churn_table 1) div ns_per_day = 200"
    using di unfolding d keys by simp
  moreover have "(1::nat) \<noteq> 2" by simp
  ultimately have c: "Churn_Rate m = 50"
    using two ids by blast
  have s1: "customers_load_and_clean_data iso_date scenario_file = Inr scenario_table"
    by (simp add: scenario_file_def scenario_table_def customer_table_defs iso_date_defs)
  have s2: "scenario_table \<noteq> []"
    by (simp add: scenario_table_def)
  have sd: "days_inactive scenario_table = [(1, Some 190), (2, Some 0)]"
    by (simp add: scenario_table_def customer_table_defs days_inactive_def last_order_date_def
        current_date_def ns_per_day_def)
  have sa: "active_customers scenario_table = 2"
    by (simp add: scenario_table_def customer_table_defs)
  have sr: "churn_rate scenario_table = 50"
    by (simp add: churn_rate_def churned_customers_def sd sa)
  obtain m' where ret': "customers_calculate_metrics scenario_table None = (Inr m', Some m')"
    using churn_rate_relative_to_latest_order [OF s1 s2, of None] by blast
  then have c': "Churn_Rate m' = 50"
    using sr sa by (auto simp: customers_calculate_metrics_def Let_def)
  show ?thesis
    using h1 h2 ids d ret eq c s1 sd ret' c' by auto
qed

text \<open>
  C10. On a cleaned table with at least one row, some customer placed the latest order
  of the table; every such customer has 0 days of inactivity and is not churned. So
  the churned customers are at most all but one, and the stored Churn Rate is below 100.
\<close>

theorem churn_rate_below_100:
  assumes "customers_load_and_clean_data to_datetime file_rows = Inr df" and "df \<noteq> []"
  shows "(\<exists>k\<in>customer_ids df. last_order df k = latest_order df)
       \<and> (\<forall>k\<in>customer_ids df. last_order df k = latest_order df \<longrightarrow>
             (k, Some 0) \<in> set (days_inactive df) \<and> k \<notin> churned_ids df)
       \<and> churned_customers df \<le> active_customers df - 1
       \<and> churned_customers df < active_customers df
       \<and> (\<exists>m. customers_calculate_metrics df file = (Inr m, Some m) \<and> Churn_Rate m < 100)"
proof -
  have pos: "0 < active_customers df" using assms by (rule cleaned_active_pos)
  obtain k where k: "k \<in> customer_ids df" "last_order df k = latest_order df"
    using max_holder[OF assms] by blast
  have zero: "(k, Some 0) \<in> set (days_inactive df) \<and> k \<notin> churned_ids df"
    if "k \<in> customer_ids df" "last_order df k = latest_order df" for k
    using that by (auto simp: days_inactive_eq[OF assms(2)] set_customer_keys churned_ids_def image_iff)
  have "churned_ids df \<subseteq> customer_ids df - {k}"
    using zero[OF k] by (auto simp: churned_ids_def)
  then have "card (churned_ids df) \<le> card (customer_ids df - {k})"
    using finite_customer_ids[of df] by (intro card_mono) auto
  also have "\<dots> = card (customer_ids df) - 1"
    using k(1) finite_customer_ids[of df] by simp
  finally have le: "churned_customers df \<le> active_customers df - 1"
    by (simp add: churned_customers_card[OF assms(2)] active_customers_card)
  then have lt: "churned_customers df < active_customers df" using pos by linarith
  define q where "q = real (churned_customers df) / real (active_customers df)"
  have "q < 1" using lt pos by (simp add: q_def)
  then have "q * 100 < 100" by simp
  then have "churn_rate df < 100" by (simp only: churn_rate_def q_def)
  then show ?thesis
    unfolding calculate_metrics_returns[OF pos]
    using k zero le lt by auto
qed

theorem churn_rate_below_100_witness:
  "customers_load_and_clean_data iso_date churn_file = Inr churn_table
   \<and> churn_table \<noteq> []
   \<and> 2 \<in> customer_ids churn_table
   \<and> last_order churn_table 2 = latest_order churn_table
   \<and> (2, Some 0) \<in> set (days_inactive churn_table)
   \<and> 2 \<notin> churned_ids churn_table
   \<and> churned_customers churn_table = 1
   \<and> active_customers churn_table = 2
   \<and> (\<exists>m. customers_calculate_metrics churn_table None = (Inr m, Some m)
          \<and> Churn_Rate m < 100)"
proof -
  have h1: "customers_load_and_clean_data iso_date churn_file = Inr churn_table"
    by (simp add: churn_file_def churn_table_def customer_table_defs iso_date_defs)
  have h2: "churn_table \<noteq> []"
    by (simp add: churn_table_def)
  have k: "2 \<in> customer_ids churn_table"
    by (simp add: customer_ids_present churn_table_def)
  have l: "last_order churn_table 2 = latest_order churn_table"
    by (simp add: last_order_list latest_order_def churn_table_def customer_group_def)
  have a: "active_customers churn_table = 2"
    by (simp add: churn_table_def customer_table_defs)
  have c: "churned_customers churn_table = 1"
    by (simp add: churn_table_def customer_table_defs churned_customers_def days_inactive_def
        last_order_date_def current_date_def ns_per_day_def)
  show ?thesis
    using churn_rate_below_100 [OF h1 h2, of None] h1 h2 k l a c
    by auto
qed

text \<open>
  C9. On a cleaned table with at least one row, every customer satisfies exactly one of
  the three segment conditions (at least the high cutoff; below it and at least the
  medium cutoff; below the medium cutoff), since the medium cutoff, the quantile 0.5,
  is at most the high cutoff, the quantile 0.8. So the three counts of the stored record
  add up to its number of customers.
\<close>

theorem segments_partition_customers:
  assumes "customers_load_and_clean_data to_datetime file_rows = Inr df" and "df \<noteq> []"
  shows "(\<forall>p\<in>set (customer_revenue df).
            (if ge_cutoff (snd p) (high_cutoff df) then 1 else 0)
          + (if lt_cutoff (snd p) (high_cutoff df) \<and> ge_cutoff (snd p) (med_cutoff df)
             then 1 else 0)
          + (if lt_cutoff (snd p) (med_cutoff df) then 1 else 0) = (1::nat))
       \<and> (\<exists>m. customers_calculate_metrics df file = (Inr m, Some m)
             \<and> High_Value_Count m + Medium_Value_Count m + Low_Value_Count m
                 = Active_Customers m)"
proof -
  have pos: "0 < active_customers df" using assms by (rule cleaned_active_pos)
  obtain h c where hc: "high_cutoff df = Fin h" "med_cutoff df = Fin c" "c \<le> h"
    using cutoffs_ordered[OF pos] by blast
  have one: "\<forall>p\<in>set (customer_revenue df).
       (ge_cutoff (snd p) (high_cutoff df)
          \<and> \<not> (lt_cutoff (snd p) (high_cutoff df) \<and> ge_cutoff (snd p) (med_cutoff df))
          \<and> \<not> lt_cutoff (snd p) (med_cutoff df))
     \<or> (\<not> ge_cutoff (snd p) (high_cutoff df)
          \<and> (lt_cutoff (snd p) (high_cutoff df) \<and> ge_cutoff (snd p) (med_cutoff df))
          \<and> \<not> lt_cutoff (snd p) (med_cutoff df))
     \<or> (\<not> ge_cutoff (snd p) (high_cutoff df)
          \<and> \<not> (lt_cutoff (snd p) (high_cutoff df) \<and> ge_cutoff (snd p) (med_cutoff df))
          \<and> lt_cutoff (snd p) (med_cutoff df))"
    using hc by auto
  have sum: "high_value_count df + med_value_count df + low_value_count df = active_customers df"
    unfolding high_value_count_def med_value_count_def low_value_count_def
    using three_way_count[OF one] by (simp add: length_customer_revenue)
  have each: "\<forall>p\<in>set (customer_revenue df).
            (if ge_cutoff (snd p) (high_cutoff df) then 1 else 0)
          + (if lt_cutoff (snd p) (high_cutoff df) \<and> ge_cutoff (snd p) (med_cutoff df)
             then 1 else 0)
          + (if lt_cutoff (snd p) (med_cutoff df) then 1 else 0) = (1::nat)"
    using hc by auto
  show ?thesis
    unfolding calculate_metrics_returns[OF pos] using each sum by simp
qed

theorem segments_partition_customers_witness:
  "customers_load_and_clean_data iso_date retention_file = Inr retention_table
   \<and> retention_table \<noteq> []
   \<and> customer_revenue retention_table = [(1, 10), (2, 25), (3, 24)]
   \<and> high_cutoff retention_table = Fin 24.6
   \<and> med_cutoff retention_table = Fin 24
   \<and> (\<exists>m. customers_calculate_metrics retention_table None = (Inr m, Some m)
          \<and> High_Value_Count m = 1 \<and> Medium_Value_Count m = 1 \<and> Low_Value_Count m = 1
          \<and> Active_Customers m = 3)"
proof -
  have h1: "customers_load_and_clean_data iso_date retention_file = Inr retention_table"
    by (simp add: retention_file_def retention_table_def customer_table_defs iso_date_defs)
  have h2: "retention_table \<noteq> []"
    by (simp add: retention_table_def)
  have a: "active_customers retention_table = 3"
    by (simp add: retention_table_def customer_table_defs)
  have r: "customer_revenue retention_table = [(1, 10), (2, 25), (3, 24)]"
    by (simp add: retention_table_def customer_table_defs customer_revenue_def)
  have q: "high_cutoff retention_table = Fin 24.6 \<and> med_cutoff retention_table = Fin 24"
    by (simp add: high_cutoff_def med_cutoff_def r quantile_def lerp_def Let_def)
  have n: "high_value_count retention_table = 1 \<and> med_value_count retention_table = 1
           \<and> low_value_count retention_table = 1"
    by (simp add: high_value_count_def med_value_count_def low_value_count_def r q)
  have m: "customers_calculate_metrics retention_table None = (Inr m, Some m) \<Longrightarrow>
            High_Value_Count m = 1 \<and> Medium_Value_Count m = 1 \<and> Low_Value_Count m = 1
          \<and> Active_Customers m = 3" for m
    using a n by (auto simp: customers_calculate_metrics_def Let_def)
  obtain m where "customers_calculate_metrics retention_table None = (Inr m, Some m)"
    using segments_partition_customers [OF h1 h2, of None] by blast
  then show ?thesis
    using h1 h2 r q m by blast
qed

text \<open>
  C4. When the revenues of all customers are one value \<open>v\<close>, both cutoffs are \<open>v\<close>,
  every customer is counted as High, and the Medium and Low counts are 0. With five
  customers of revenue 10 each: cutoffs 10, counts 5, 0 and 0.
\<close>

theorem equal_revenues_all_high:
  assumes "set (map snd (customer_revenue df)) = {v}"
  shows "high_cutoff df = Fin v \<and> med_cutoff df = Fin v
       \<and> (\<exists>m. customers_calculate_metrics df file = (Inr m, Some m)
             \<and> High_Value_Cutoff m = Fin v
             \<and> High_Value_Count m = Active_Customers m
             \<and> Medium_Value_Count m = 0 \<and> Low_Value_Count m = 0)"
proof -
  have "customer_revenue df \<noteq> []" using assms by auto
  then have "0 < length (customer_revenue df)" by simp
  then have pos: "0 < active_customers df"
    by (simp only: length_customer_revenue)
  have h: "high_cutoff df = Fin v"
    unfolding high_cutoff_def by (rule quantile_const[OF assms]) simp_all
  have c: "med_cutoff df = Fin v"
    unfolding med_cutoff_def by (rule quantile_const[OF assms]) simp_all
  have all: "\<forall>p\<in>set (customer_revenue df). snd p = v" using assms by auto
  have hi: "high_value_count df = active_customers df"
    using all by (simp add: high_value_count_def h length_customer_revenue[symmetric])
  have me: "med_value_count df = 0"
    using all by (simp add: med_value_count_def h c)
  have lo: "low_value_count df = 0"
    using all by (simp add: low_value_count_def c)
  show ?thesis
    unfolding calculate_metrics_returns[OF pos] using h c hi me lo by simp
qed

theorem equal_revenues_all_high_witness:
  "customers_load_and_clean_data iso_date equal_revenue_file = Inr equal_revenue_table
   \<and> map snd (customer_revenue equal_revenue_table) = [10, 10, 10, 10, 10]
   \<and> high_cutoff equal_revenue_table = Fin 10
   \<and> med_cutoff equal_revenue_table = Fin 10
   \<and> (\<exists>m. customers_calculate_metrics equal_revenue_table None = (Inr m, Some m)
          \<and> High_Value_Cutoff m = Fin 10
          \<and> High_Value_Count m = 5 \<and> Medium_Value_Count m = 0 \<and> Low_Value_Count m = 0)"
proof -
  have h1: "customers_load_and_clean_data iso_date equal_revenue_file = Inr equal_revenue_table"
    by (simp add: equal_revenue_file_def equal_revenue_table_def customer_table_defs
        iso_date_defs)
  have r: "map snd (customer_revenue equal_revenue_table) = [10, 10, 10, 10, 10]"
    by (simp add: equal_revenue_table_def customer_table_defs customer_revenue_def)
  have h2: "set (map snd (customer_revenue equal_revenue_table)) = {10}"
    unfolding r by simp
  have a: "active_customers equal_revenue_table = 5"
    by (simp add: equal_revenue_table_def customer_table_defs)
  have m: "customers_calculate_metrics equal_revenue_table None = (Inr m, Some m) \<Longrightarrow>
            Active_Customers m = 5" for m
    using a by (auto simp: customers_calculate_metrics_def Let_def)
  show ?thesis
    using equal_revenues_all_high [OF h2, of None] h1 r m by auto
qed

end
